theory Spec2Isabelle
  imports Main "HOL-Library.Sublist" "HOL-Library.Product_Lexorder" "HOL-Library.Multiset"
begin

section \<open>Text\<close>

text \<open>
  A Python \<open>str\<close> is a sequence of Unicode code points, so a text value is a list of
  code points. Every literal of \<open>streamlit_app.py\<close> is given below by its code points; the
  comment beside it spells the literal (ASCII) or names its characters (U+xxxx).
\<close>

type_synonym ustring = "nat list"

named_theorems lit \<open>the string literals of streamlit_app.py\<close>

definition sunday :: ustring where \<comment> \<open>U+65E5, the Sunday column label\<close>
  [lit]: "sunday = [26085]"

definition ascii_tilde :: ustring where \<comment> \<open>the one-character string of U+007E\<close>
  [lit]: "ascii_tilde = [126]"

definition wide_tilde :: ustring where \<comment> \<open>the one-character string of U+FF5E\<close>
  [lit]: "wide_tilde = [65374]"

definition space :: ustring where
  [lit]: "space = [32]"

definition newline_paren :: ustring where \<comment> \<open>what the regex \<open>\n\(\<close> matches: U+000A then U+0028\<close>
  [lit]: "newline_paren = [10, 40]"

definition open_paren :: ustring where
  [lit]: "open_paren = [40]"

definition close_open :: ustring where \<comment> \<open>the two characters U+0029 U+0028\<close>
  [lit]: "close_open = [41, 40]"

definition slash_joiner :: ustring where \<comment> \<open>space, U+002F, space\<close>
  [lit]: "slash_joiner = [32, 47, 32]"

definition next_day_mark :: ustring where \<comment> \<open>U+7FCC\<close>
  [lit]: "next_day_mark = [32716]"

definition dental :: ustring where \<comment> \<open>U+6B6F U+79D1\<close>
  [lit]: "dental = [27503, 31185]"

definition blood_donation :: ustring where \<comment> \<open>U+732E U+8840\<close>
  [lit]: "blood_donation = [29486, 34880]"

definition civic_hall_front :: ustring where \<comment> \<open>U+5E02 U+6C11 U+4F1A U+9928 U+524D\<close>
  [lit]: "civic_hall_front = [24066, 27665, 20250, 39208, 21069]"

definition city_medical :: ustring where
  \<comment> \<open>U+533B U+5E2B U+4F1A U+5E02 U+6C11 U+75C5 U+9662\<close>
  [lit]: "city_medical = [21307, 24107, 20250, 24066, 27665, 30149, 38498]"

definition prefectural :: ustring where \<comment> \<open>U+770C U+7ACB U+4ECA U+6CBB U+75C5 U+9662\<close>
  [lit]: "prefectural = [30476, 31435, 20170, 27835, 30149, 38498]"

definition central_clinic :: ustring where
  \<comment> \<open>U+4ECA U+6CBB U+30BB U+30F3 U+30C8 U+30E9 U+30EB U+30AF U+30EA U+30CB U+30C3 U+30AF\<close>
  [lit]: "central_clinic =
    [20170, 27835, 12475, 12531, 12488, 12521, 12523, 12463, 12522, 12491, 12483, 12463]"

definition island :: "ustring list" where \<comment> \<open>the seven names of the list \<open>island\<close>, in order\<close>
  [lit]: "island =
    [[12375, 12398, 12374, 12365, 25972, 24418, 22806, 31185],
     [12399, 12363, 12383, 22806, 31185, 32963, 33144, 31185],
     [21916, 22810, 23947, 35386, 30274, 25152],
     [25998, 34276, 12463, 12522, 12491, 12483, 12463],
     [22823, 19977, 23798, 20013, 22830, 30149, 38498],
     [29255, 23665, 21307, 38498],
     [26377, 27941, 12416, 12425, 12363, 12415, 12463, 12522, 12491, 12483, 12463]]"

definition pediatrics :: "ustring list" where
  \<comment> \<open>the seven names of the list \<open>pediatrics\<close>, in order; the fifth is \<open>city_medical\<close>, the
      sixth \<open>prefectural\<close>\<close>
  [lit]: "pediatrics =
    [[12354, 12362, 12356, 23567, 20816, 31185],
     [20025, 12371, 12393, 12418, 12463, 12522, 12491, 12483, 12463],
     [12414, 12388, 12358, 12425, 12496, 12531, 12499, 12463, 12522, 12491, 12483, 12463],
     [12415, 12406, 23567, 20816, 31185],
     [21307, 24107, 20250, 24066, 27665, 30149, 38498],
     [30476, 31435, 20170, 27835, 30149, 38498],
     [28168, 29983, 20250, 20170, 27835, 30149, 38498]]"

definition t_0900_1200_1400_1700 :: ustring where
  \<comment> \<open>09:00 U+FF5E 12:00 / 14:00 U+FF5E 17:00\<close>
  [lit]: "t_0900_1200_1400_1700 =
    [48, 57, 58, 48, 48, 65374, 49, 50, 58, 48, 48, 32, 47, 32,
     49, 52, 58, 48, 48, 65374, 49, 55, 58, 48, 48]"

definition t_0900_1700 :: ustring where \<comment> \<open>09:00 U+FF5E 17:00\<close>
  [lit]: "t_0900_1700 = [48, 57, 58, 48, 48, 65374, 49, 55, 58, 48, 48]"

definition t_0900_1730 :: ustring where \<comment> \<open>09:00 U+FF5E 17:30\<close>
  [lit]: "t_0900_1730 = [48, 57, 58, 48, 48, 65374, 49, 55, 58, 51, 48]"

definition t_830_next_830 :: ustring where \<comment> \<open>8:30 U+FF5E U+7FCC 8:30\<close>
  [lit]: "t_830_next_830 = [56, 58, 51, 48, 65374, 32716, 56, 58, 51, 48]"

definition s_830 :: ustring where \<comment> \<open>8:30\<close>
  [lit]: "s_830 = [56, 58, 51, 48]"

definition s_0830 :: ustring where \<comment> \<open>08:30\<close>
  [lit]: "s_0830 = [48, 56, 58, 51, 48]"

definition t_0830_1730 :: ustring where \<comment> \<open>08:30 U+FF5E 17:30\<close>
  [lit]: "t_0830_1730 = [48, 56, 58, 51, 48, 65374, 49, 55, 58, 51, 48]"

definition t_1730_next_0830 :: ustring where \<comment> \<open>17:30 U+FF5E U+7FCC 08:30\<close>
  [lit]: "t_1730_next_0830 = [49, 55, 58, 51, 48, 65374, 32716, 48, 56, 58, 51, 48]"

definition t_0830_1715_2230_next_0830 :: ustring where
  \<comment> \<open>08:30 U+FF5E 17:15 / 22:30 U+FF5E U+7FCC 08:30\<close>
  [lit]: "t_0830_1715_2230_next_0830 =
    [48, 56, 58, 51, 48, 65374, 49, 55, 58, 49, 53, 32, 47, 32,
     50, 50, 58, 51, 48, 65374, 32716, 48, 56, 58, 51, 48]"

definition t_1715_2230 :: ustring where \<comment> \<open>17:15 U+FF5E 22:30\<close>
  [lit]: "t_1715_2230 = [49, 55, 58, 49, 53, 65374, 50, 50, 58, 51, 48]"

subsection \<open>The string methods the pipeline calls\<close>

text \<open>
  \<open>str.replace(old, new)\<close> with a literal pattern: scan from the left, replace each
  occurrence of \<open>old\<close> and continue after it. The regex \<open>\n\(\<close> is the literal two-character
  pattern \<open>newline_paren\<close>, so the same scan models it. Python puts \<open>new\<close> around every
  character when \<open>old\<close> is empty. The calls without \<open>regex=True\<close> take their pattern
  literally, as pandas 2 does by default; line 46 needs this, since \<open>)(\<close> is no regex.
\<close>

function replace_scan :: "ustring \<Rightarrow> ustring \<Rightarrow> ustring \<Rightarrow> ustring" where
  "replace_scan old new [] = []"
| "replace_scan old new (c # cs) =
     (if old \<noteq> [] \<and> prefix old (c # cs)
      then new @ replace_scan old new (drop (length old) (c # cs))
      else c # replace_scan old new cs)"
  by pat_completeness auto
termination
  by (relation "measure (\<lambda>(old, new, s). length s)") auto

definition str_replace :: "ustring \<Rightarrow> ustring \<Rightarrow> ustring \<Rightarrow> ustring" where
  "str_replace old new s =
     (if old = [] then new @ concat (map (\<lambda>c. c # new) s) else replace_scan old new s)"

text \<open>\<open>str.contains(pat)\<close> for a pattern without regex metacharacters: substring search.\<close>

fun str_contains :: "ustring \<Rightarrow> ustring \<Rightarrow> bool" where
  "str_contains pat [] = (pat = [])"
| "str_contains pat (c # cs) = (prefix pat (c # cs) \<or> str_contains pat cs)"

text \<open>The characters Python's \<open>str.isspace\<close>, \<open>str.strip()\<close> and \<open>str.split()\<close> take as white space.\<close>

definition isspace :: "nat \<Rightarrow> bool" where
  "isspace c \<longleftrightarrow>
     (9 \<le> c \<and> c \<le> 13) \<or> (28 \<le> c \<and> c \<le> 32) \<or> c = 133 \<or> c = 160 \<or> c = 5760 \<or>
     (8192 \<le> c \<and> c \<le> 8202) \<or> c = 8232 \<or> c = 8233 \<or> c = 8239 \<or> c = 8287 \<or> c = 12288"

definition strip_chars :: "(nat \<Rightarrow> bool) \<Rightarrow> ustring \<Rightarrow> ustring" where
  "strip_chars P s = rev (dropWhile P (rev (dropWhile P s)))"

definition str_strip :: "ustring \<Rightarrow> ustring" where \<comment> \<open>\<open>.str.strip()\<close>\<close>
  "str_strip s = strip_chars isspace s"

definition str_strip_parens :: "ustring \<Rightarrow> ustring" where \<comment> \<open>\<open>.str.strip("()")\<close>\<close>
  "str_strip_parens s = strip_chars (\<lambda>c. c = 40 \<or> c = 41) s"

text \<open>
  \<open>str.split()\<close> without a separator: the maximal runs of characters that are not white
  space. The first argument is the token read so far.
\<close>

fun tokens :: "ustring \<Rightarrow> ustring \<Rightarrow> ustring list" where
  "tokens cur [] = (if cur = [] then [] else [cur])"
| "tokens cur (c # cs) =
     (if isspace c then (if cur = [] then tokens [] cs else cur # tokens [] cs)
      else tokens (cur @ [c]) cs)"

definition str_split :: "ustring \<Rightarrow> ustring list" where
  "str_split s = tokens [] s"

text \<open>
  \<open>re.split\<close> on the pattern \<open>(?<!\))\(\<close>: cut at every U+0028 that does not come right
  after a U+0029, and drop the U+0028. The first argument is the character before the
  rest of the string, if any.
\<close>

fun split_paren :: "nat option \<Rightarrow> ustring \<Rightarrow> ustring list" where
  "split_paren prev [] = [[]]"
| "split_paren prev (c # cs) =
     (if c = 40 \<and> prev \<noteq> Some 41 then [] # split_paren (Some c) cs
      else (case split_paren (Some c) cs of
              [] \<Rightarrow> [[c]]
            | p # ps \<Rightarrow> (c # p) # ps))"

section \<open>Numbers\<close>

text \<open>
  \<open>pd.to_numeric(..., errors="coerce")\<close> followed by \<open>astype(int)\<close>. A token that is a
  decimal integer literal (an optional sign, then ASCII digits) of magnitude at most
  \<open>2 ^ 53\<close> is read exactly, also when the column is held as 64-bit floats. What the
  numeric parser makes of any other token (a float literal, \<open>inf\<close>, \<open>nan\<close>, a larger
  integer) is floating point and is taken as the parameter \<open>other\<close>: \<open>NaN\<close> for a token
  it rejects, \<open>Infinity\<close> for an infinite value, \<open>Num n\<close> for a finite value that
  \<open>astype(int)\<close> turns into \<open>n\<close>.
\<close>

datatype numeric = NaN | Infinity | Num int

fun digits_val :: "nat \<Rightarrow> ustring \<Rightarrow> nat option" where
  "digits_val acc [] = Some acc"
| "digits_val acc (c # cs) =
     (if 48 \<le> c \<and> c \<le> 57 then digits_val (10 * acc + (c - 48)) cs else None)"

definition int_literal :: "ustring \<Rightarrow> int option" where
  "int_literal s =
     (case s of
        [] \<Rightarrow> None
      | c # cs \<Rightarrow>
          if c = 43 \<and> cs \<noteq> [] then map_option int (digits_val 0 cs)
          else if c = 45 \<and> cs \<noteq> [] then map_option (\<lambda>n. - int n) (digits_val 0 cs)
          else map_option int (digits_val 0 (c # cs)))"

definition to_numeric :: "(ustring \<Rightarrow> numeric) \<Rightarrow> ustring \<Rightarrow> numeric" where
  "to_numeric other s =
     (case int_literal s of
        Some n \<Rightarrow> if \<bar>n\<bar> \<le> 2 ^ 53 then Num n else other s
      | None \<Rightarrow> other s)"

section \<open>Errors\<close>

text \<open>The exceptions that pandas raises inside the pipeline; each aborts \<open>load_data\<close>.\<close>

datatype error = IndexError | KeyError | ValueError | AttributeError | OverflowError

section \<open>\<open>process_table\<close>\<close>

text \<open>
  The table that \<open>extract_table\<close> returns: a list of rows of cells, a cell a string or
  \<open>None\<close>. A long row is (number, week, text): the row's position, the column's label and
  the normalised text.
\<close>

type_synonym cell = "ustring option"
type_synonym long_row = "nat \<times> ustring \<times> ustring"

text \<open>
  \<open>DataFrame.stack\<close>: row by row, every cell that is not null, with the row's index and
  the column's label. A row shorter than the header is padded with nulls.
\<close>

definition stack :: "cell list \<Rightarrow> cell list list \<Rightarrow> (nat \<times> cell \<times> ustring) list" where
  "stack header rows =
     concat (map (\<lambda>(i, row).
                    List.map_filter (\<lambda>(label, c). map_option (\<lambda>t. (i, label, t)) c)
                      (zip header row))
                 (enumerate 0 rows))"

text \<open>Lines 21 to 28: the chain of string methods, then \<open>mask(df["text"] == "")\<close>.\<close>

definition normalize_text :: "ustring \<Rightarrow> ustring option" where
  "normalize_text t =
     (if t = [] then None
      else Some (str_replace newline_paren open_paren
                  (str_strip (str_replace space [] (str_replace ascii_tilde wide_tilde t)))))"

text \<open>
  \<open>pd.DataFrame(table[1:], columns=table[0])\<close> raises IndexError on an empty table and
  ValueError when the longest data row and the header differ in length.
\<close>

definition process_table :: "cell list list \<Rightarrow> error + long_row list" where
  "process_table table =
     (case table of
        [] \<Rightarrow> Inl IndexError
      | header # rows \<Rightarrow>
          if rows \<noteq> [] \<and> fold max (map length rows) 0 \<noteq> length header then Inl ValueError
          else Inr (List.map_filter
                      (\<lambda>(number, label, t).
                         map_option
                           (\<lambda>t'. (number, (case label of None \<Rightarrow> sunday | Some w \<Rightarrow> w), t'))
                           (normalize_text t))
                      (stack header rows)))"

section \<open>\<open>split_text\<close>\<close>

record day_week =
  day :: int
  week :: ustring

record day_row = day_week +
  slots :: "ustring list"

text \<open>
  The frame after \<open>split_text\<close> has the columns week, day, 1, ..., n - 1, where n is the
  largest number of tokens of a text. \<open>slots\<close> holds a row's tokens after the first (its
  cells that are not null); the frame is the pair of n - 1 and the rows. With no token at
  all there is no column 0 to rename, so \<open>df["day"]\<close> raises KeyError.
\<close>

definition day_of :: "(ustring \<Rightarrow> numeric) \<Rightarrow> ustring list \<Rightarrow> numeric" where
  "day_of other ts = (case ts of [] \<Rightarrow> NaN | d # _ \<Rightarrow> to_numeric other d)"

fun astype_int :: "(ustring \<times> ustring list \<times> numeric) list \<Rightarrow> error + day_row list" where
  "astype_int [] = Inr []"
| "astype_int ((w, ts, n) # rest) =
     (case n of
        Num k \<Rightarrow>
          (case astype_int rest of
             Inl e \<Rightarrow> Inl e
           | Inr rs \<Rightarrow> Inr (\<lparr>day = k, week = w, slots = tl ts\<rparr> # rs))
      | _ \<Rightarrow> Inl ValueError)"

definition split_text :: "(ustring \<Rightarrow> numeric) \<Rightarrow> long_row list \<Rightarrow> error + nat \<times> day_row list" where
  "split_text other df =
     (let toks = map (\<lambda>(number, w, t). (w, str_split t)) df;
          n = fold max (map (\<lambda>(w, ts). length ts) toks) 0
      in if n = 0 then Inl KeyError
         else
           (case astype_int
                   (filter (\<lambda>(w, ts, d). d \<noteq> NaN)
                      (map (\<lambda>(w, ts). (w, ts, day_of other ts)) toks)) of
              Inl e \<Rightarrow> Inl e
            | Inr rows \<Rightarrow> Inr (n - 1, rows)))"

section \<open>\<open>melt_and_split\<close>\<close>

record slot_row = day_week +
  variable :: nat
  name :: ustring
  time :: "ustring option"

text \<open>
  \<open>pd.melt\<close>: column by column, every row; \<open>dropna\<close> keeps the cells that hold a token.
  \<open>sort_values\<close> on several columns is a stable sort.
\<close>

definition melt :: "nat \<Rightarrow> day_row list \<Rightarrow> (int \<times> ustring \<times> nat \<times> ustring) list" where
  "melt ncols df =
     concat (map (\<lambda>v. List.map_filter
                         (\<lambda>r. if v \<le> length (slots r)
                               then Some (day r, week r, v, slots r ! (v - 1)) else None)
                         df)
                 [1..<Suc ncols])"

definition parse_slot :: "int \<times> ustring \<times> nat \<times> ustring \<Rightarrow> slot_row" where
  "parse_slot = (\<lambda>(d, w, v, x).
     (case split_paren None x of
        [] \<Rightarrow> \<lparr>day = d, week = w, variable = v, name = [], time = None\<rparr>
      | [n] \<Rightarrow> \<lparr>day = d, week = w, variable = v, name = n, time = None\<rparr>
      | n # t # _ \<Rightarrow>
          \<lparr>day = d, week = w, variable = v, name = n,
           time = Some (str_replace close_open slash_joiner (str_strip_parens t))\<rparr>))"

text \<open>
  With no slot column the melted \<open>value\<close> column is an empty float column and \<open>.str\<close>
  raises AttributeError. \<open>df[["name", "time"]] = ...\<close> needs exactly two columns from the
  expanding split, so the slot with the most parts must have two; else ValueError.
\<close>

definition melt_and_split :: "nat \<times> day_row list \<Rightarrow> error + slot_row list" where
  "melt_and_split = (\<lambda>(ncols, df).
     if ncols = 0 then Inl AttributeError
     else
       (let m = sort_key (\<lambda>(d, w, v, x). (d, v)) (melt ncols df)
        in if fold max (map (\<lambda>(d, w, v, x). length (split_paren None x)) m) 0 \<noteq> 2
           then Inl ValueError
           else Inr (map parse_slot m)))"

section \<open>\<open>filter_data\<close>\<close>

definition filter_data :: "slot_row list \<Rightarrow> slot_row list" where
  "filter_data df =
     filter (\<lambda>r. \<not> (week r = sunday \<and> str_contains dental (name r))
                \<and> \<not> (name r = blood_donation \<or> name r = civic_hall_front)) df"

section \<open>\<open>categorize_data\<close>\<close>

record typed_row = slot_row +
  type :: int

text \<open>
  Every statement of \<open>categorize_data\<close> rewrites one column from the columns of the same
  row, so it is a function on rows, applied to every row before the next statement runs.
  The twelve statements follow in the order of the source (lines 77 to 105).
\<close>

definition rule1 :: "slot_row \<Rightarrow> typed_row" where \<comment> \<open>line 77\<close>
  "rule1 r = \<lparr>day = day r, week = week r, variable = variable r, name = name r,
              time = time r, type = 8\<rparr>"

definition rule2 :: "typed_row \<Rightarrow> typed_row" where \<comment> \<open>line 78\<close>
  "rule2 r = (if name r \<in> set island then r\<lparr>type := 9\<rparr> else r)"

definition rule3 :: "typed_row \<Rightarrow> typed_row" where \<comment> \<open>lines 79 to 81\<close>
  "rule3 r =
     (if variable r > 1 \<and> name r \<in> set pediatrics
         \<and> \<not> str_contains next_day_mark (case time r of None \<Rightarrow> [] | Some t \<Rightarrow> t)
      then r\<lparr>type := 7\<rparr> else r)"

definition rule4 :: "typed_row \<Rightarrow> typed_row" where \<comment> \<open>line 83\<close>
  "rule4 r = (if time r = None \<and> type r = 7 then r\<lparr>time := Some t_0900_1200_1400_1700\<rparr> else r)"

definition rule5 :: "typed_row \<Rightarrow> typed_row" where \<comment> \<open>line 84\<close>
  "rule5 r = (if time r = None \<and> type r = 9 then r\<lparr>time := Some t_0900_1700\<rparr> else r)"

definition rule6 :: "typed_row \<Rightarrow> typed_row" where \<comment> \<open>line 86\<close>
  "rule6 r = (if time r = None \<and> variable r = 1 then r\<lparr>type := 0\<rparr> else r)"

definition rule7 :: "typed_row \<Rightarrow> typed_row" where \<comment> \<open>line 87\<close>
  "rule7 r = (if type r = 0 then r\<lparr>time := Some t_830_next_830\<rparr> else r)"

definition rule8 :: "typed_row \<Rightarrow> typed_row" where \<comment> \<open>line 88\<close>
  "rule8 r = r\<lparr>time := map_option (str_replace s_830 s_0830) (time r)\<rparr>"

definition rule9 :: "typed_row \<Rightarrow> typed_row" where \<comment> \<open>line 90\<close>
  "rule9 r =
     (if variable r = 1 \<and> type r = 8 \<and> time r = Some t_0830_1730 then r\<lparr>type := 1\<rparr> else r)"

definition rule10 :: "typed_row \<Rightarrow> typed_row" where \<comment> \<open>line 91\<close>
  "rule10 r =
     (if variable r = 2 \<and> type r = 8 \<and> time r = Some t_1730_next_0830 then r\<lparr>type := 2\<rparr>
      else r)"

definition rule11 :: "typed_row \<Rightarrow> typed_row" where \<comment> \<open>lines 92 to 98\<close>
  "rule11 r =
     (if variable r = 1 \<and> type r = 8 \<and> time r = Some t_0830_1715_2230_next_0830
         \<and> name r = prefectural
      then r\<lparr>type := 3\<rparr> else r)"

definition rule12 :: "typed_row \<Rightarrow> typed_row" where \<comment> \<open>lines 99 to 105\<close>
  "rule12 r =
     (if variable r = 2 \<and> type r = 8 \<and> time r = Some t_1715_2230 \<and> name r = central_clinic
      then r\<lparr>type := 4\<rparr> else r)"

definition before_padding :: "slot_row \<Rightarrow> typed_row" where \<comment> \<open>lines 77 to 87\<close>
  "before_padding r = rule7 (rule6 (rule5 (rule4 (rule3 (rule2 (rule1 r))))))"

definition categorize_row :: "slot_row \<Rightarrow> typed_row" where
  "categorize_row r = rule12 (rule11 (rule10 (rule9 (rule8 (before_padding r)))))"

definition categorize_data :: "slot_row list \<Rightarrow> typed_row list" where
  "categorize_data df = map categorize_row df"

section \<open>\<open>add_missing_rows\<close>\<close>

definition new_rows_of :: "int \<Rightarrow> typed_row list" where \<comment> \<open>lines 118 to 130\<close>
  "new_rows_of d =
     [\<lparr>day = d, week = sunday, variable = 1, name = city_medical,
       time = Some t_0900_1730, type = 6\<rparr>,
      \<lparr>day = d, week = sunday, variable = 1, name = city_medical,
       time = Some t_0900_1200_1400_1700, type = 7\<rparr>]"

definition filtered_days :: "typed_row list \<Rightarrow> int list" where \<comment> \<open>lines 111 to 113\<close>
  "filtered_days df =
     map day (filter (\<lambda>r. week r = sunday \<and> variable r = 1 \<and> name r = city_medical
                           \<and> type r = 0) df)"

definition island_days :: "typed_row list \<Rightarrow> int list" where \<comment> \<open>line 114\<close>
  "island_days df =
     map day (filter (\<lambda>r. day r \<in> set (filtered_days df) \<and> variable r = 2 \<and> type r = 9) df)"

definition new_rows :: "typed_row list \<Rightarrow> typed_row list" where \<comment> \<open>lines 116 to 130\<close>
  "new_rows df = concat (map new_rows_of (island_days df))"

definition sort_key3 :: "typed_row \<Rightarrow> int \<times> nat \<times> int" where
  "sort_key3 r = (day r, variable r, type r)"

definition add_missing_rows :: "typed_row list \<Rightarrow> typed_row list" where \<comment> \<open>line 132\<close>
  "add_missing_rows df = sort_key sort_key3 (df @ new_rows df)"

section \<open>\<open>load_data\<close>: the dates\<close>

text \<open>
  A calendar date is (year, month, day). \<open>pd.to_datetime(f"{yyyymm}01")\<close> is the first day
  of the month that the page's address names; the model takes the year and the month,
  already read from that string, and raises ValueError for what is not a month or for a
  first day that a nanosecond timestamp cannot hold (the dates from 1677-09-22 to
  2262-04-11 can be held). \<open>pd.to_timedelta(df["day"] - 1, unit="D")\<close> converts the whole
  column before anything is added and raises ValueError (OutOfBoundsTimedelta) when a
  value is beyond 106751 days. The sum steps through the calendar one day at a time and
  must again be a date from 1677-09-22 to 2262-04-11, or pandas raises OverflowError.
\<close>

type_synonym date = "int \<times> int \<times> int"

definition leap :: "int \<Rightarrow> bool" where
  "leap y \<longleftrightarrow> y mod 4 = 0 \<and> (y mod 100 \<noteq> 0 \<or> y mod 400 = 0)"

definition days_in_month :: "int \<Rightarrow> int \<Rightarrow> int" where
  "days_in_month y m =
     (if m = 2 then (if leap y then 29 else 28)
      else if m = 4 \<or> m = 6 \<or> m = 9 \<or> m = 11 then 30 else 31)"

fun next_day :: "date \<Rightarrow> date" where
  "next_day (y, m, d) =
     (if d < days_in_month y m then (y, m, d + 1)
      else if m < 12 then (y, m + 1, 1) else (y + 1, 1, 1))"

fun prev_day :: "date \<Rightarrow> date" where
  "prev_day (y, m, d) =
     (if 1 < d then (y, m, d - 1)
      else if 1 < m then (y, m - 1, days_in_month y (m - 1)) else (y - 1, 12, 31))"

definition plus_days :: "date \<Rightarrow> int \<Rightarrow> date" where
  "plus_days dt n = (if 0 \<le> n then (next_day ^^ nat n) dt else (prev_day ^^ nat (- n)) dt)"

definition resolve_date :: "int \<Rightarrow> int \<Rightarrow> int \<Rightarrow> error + date" where
  "resolve_date y m d =
     (if \<bar>d - 1\<bar> > 106751 then Inl ValueError
      else (let r = plus_days (y, m, 1) (d - 1)
            in if (1677, 9, 22) \<le> r \<and> r \<le> (2262, 4, 11) then Inr r else Inl OverflowError))"

text \<open>The output record: (date, name, type, time), the columns of line 160.\<close>

type_synonym schedule_record = "date \<times> ustring \<times> int \<times> ustring option"

fun add_dates :: "int \<Rightarrow> int \<Rightarrow> typed_row list \<Rightarrow> error + schedule_record list" where
  "add_dates y m [] = Inr []"
| "add_dates y m (r # rs) =
     (case resolve_date y m (day r) of
        Inl e \<Rightarrow> Inl e
      | Inr dt \<Rightarrow>
          (case add_dates y m rs of
             Inl e \<Rightarrow> Inl e
           | Inr out \<Rightarrow> Inr ((dt, name r, type r, time r) # out)))"

text \<open>Line 158 on the whole column: first every timedelta, then the sums.\<close>

definition resolve_dates :: "int \<Rightarrow> int \<Rightarrow> typed_row list \<Rightarrow> error + schedule_record list" where
  "resolve_dates y m df =
     (if list_ex (\<lambda>r. \<bar>day r - 1\<bar> > 106751) df then Inl ValueError else add_dates y m df)"

text \<open>Lines 151 to 160 of \<open>load_data\<close>: the stages in order, then the dates.\<close>

definition load_data ::
  "(ustring \<Rightarrow> numeric) \<Rightarrow> cell list list \<Rightarrow> int \<Rightarrow> int \<Rightarrow> error + schedule_record list" where
  "load_data other table y m =
     (case process_table table of
        Inl e \<Rightarrow> Inl e
      | Inr df1 \<Rightarrow>
          (case split_text other df1 of
             Inl e \<Rightarrow> Inl e
           | Inr df2 \<Rightarrow>
               (case melt_and_split df2 of
                  Inl e \<Rightarrow> Inl e
                | Inr df3 \<Rightarrow>
                    (if m < 1 \<or> 12 < m
                        \<or> \<not> ((1677, 9, 22) \<le> (y, m, 1 :: int) \<and> (y, m, 1 :: int) \<le> (2262, 4, 11))
                     then Inl ValueError
                     else resolve_dates y m
                            (add_missing_rows (categorize_data (filter_data df3)))))))"

section \<open>Inputs and predicates of the claims\<close>

text \<open>
  The grid of the specification's scenario: the header (an empty label, then Monday to
  Sunday: U+6708 U+706B U+6C34 U+6728 U+91D1 U+571F U+65E5) and one data row whose first
  cell is \<open>1\<close>, whose Monday cell is the given text and whose other cells are empty.
\<close>

definition scenario_header :: "cell list" where
  "scenario_header =
     [Some [], Some [26376], Some [28779], Some [27700], Some [26408], Some [37329],
      Some [22303], Some [26085]]"

definition scenario_grid :: "ustring \<Rightarrow> cell list list" where
  "scenario_grid c =
     [scenario_header, [Some [49], Some c, Some [], Some [], Some [], Some [], Some [], Some []]]"

definition hospital_a :: ustring where \<comment> \<open>A U+75C5 U+9662\<close>
  "hospital_a = [65, 30149, 38498]"

definition hospital_b :: ustring where \<comment> \<open>B U+75C5 U+9662\<close>
  "hospital_b = [66, 30149, 38498]"

definition scenario_cell :: ustring where
  \<comment> \<open>the cell as the scenario writes it: \<open>1\<close>, a space, \<open>hospital_a\<close>, \<open>(08:30 U+FF5E 17:30)\<close>,
      a space, \<open>hospital_b\<close>, \<open>(17:30 U+FF5E U+7FCC 08:30)\<close>\<close>
  "scenario_cell =
     [49, 32, 65, 30149, 38498, 40, 48, 56, 58, 51, 48, 65374, 49, 55, 58, 51, 48, 41,
      32, 66, 30149, 38498, 40, 49, 55, 58, 51, 48, 65374, 32716, 48, 56, 58, 51, 48, 41]"

definition scenario_cell_lines :: ustring where
  \<comment> \<open>the same cell with line breaks (U+000A) for the two spaces and the hours written
      \<open>8:30\<close>, without the zero\<close>
  "scenario_cell_lines =
     [49, 10, 65, 30149, 38498, 40, 56, 58, 51, 48, 65374, 49, 55, 58, 51, 48, 41,
      10, 66, 30149, 38498, 40, 49, 55, 58, 51, 48, 65374, 32716, 56, 58, 51, 48, 41]"

definition row_a :: slot_row where
  "row_a = \<lparr>day = 1, week = [26376], variable = 1, name = hospital_a,
            time = Some [56, 58, 51, 48, 65374, 49, 55, 58, 51, 48]\<rparr>"

definition row_b :: slot_row where
  "row_b = \<lparr>day = 1, week = [26376], variable = 2, name = hospital_b,
            time = Some [49, 55, 58, 51, 48, 65374, 32716, 56, 58, 51, 48]\<rparr>"

text \<open>The two records that the scenario expects, dated 2024-06-01.\<close>

definition scenario_records :: "schedule_record list" where
  "scenario_records =
     [((2024, 6, 1), hospital_a, 1, Some t_0830_1730),
      ((2024, 6, 1), hospital_b, 2, Some t_1730_next_0830)]"

text \<open>
  The numeric parser on a grid where no token other than an integer literal is a number.
\<close>

definition no_other :: "ustring \<Rightarrow> numeric" where
  "no_other s = NaN"

text \<open>The zero-padding of line 88, and the strings the claims about it name.\<close>

definition pad :: "ustring \<Rightarrow> ustring" where
  "pad s = str_replace s_830 s_0830 s"

definition s_00830 :: ustring where \<comment> \<open>008:30\<close>
  "s_00830 = [48, 48, 56, 58, 51, 48]"

definition s_83830 :: ustring where \<comment> \<open>8:38:30\<close>
  "s_83830 = [56, 58, 51, 56, 58, 51, 48]"

definition t_00830_1730 :: ustring where \<comment> \<open>008:30 U+FF5E 17:30\<close>
  "t_00830_1730 = [48, 48, 56, 58, 51, 48, 65374, 49, 55, 58, 51, 48]"

definition t_0830_next_0830 :: ustring where \<comment> \<open>08:30 U+FF5E U+7FCC 08:30\<close>
  "t_0830_next_0830 = [48, 56, 58, 51, 48, 65374, 32716, 48, 56, 58, 51, 48]"

text \<open>
  \<open>all_padded p s\<close>: every occurrence of \<open>8:30\<close> in \<open>s\<close> comes right after the character
  \<open>0\<close> (48), where \<open>p\<close> is the character before \<open>s\<close>, if any.
\<close>

fun all_padded :: "nat option \<Rightarrow> ustring \<Rightarrow> bool" where
  "all_padded p [] = True"
| "all_padded p (c # cs) =
     ((prefix s_830 (c # cs) \<longrightarrow> p = Some 48) \<and> all_padded (Some c) cs)"

definition no_83830 :: "'a slot_row_scheme \<Rightarrow> bool" where
  "no_83830 r \<longleftrightarrow> (\<forall>t. time r = Some t \<longrightarrow> \<not> str_contains s_83830 t)"

text \<open>A row beside \<open>row_a\<close> whose time is \<open>8:38:30\<close>.\<close>

definition row_83830 :: slot_row where
  "row_83830 = row_a\<lparr>time := Some s_83830\<rparr>"

text \<open>The codes the classifier can assign.\<close>

definition classifier_types :: "int set" where
  "classifier_types = {0, 1, 2, 3, 4, 7, 8, 9}"

text \<open>
  The filter as the specification words it: a row is dropped when its week is the Sunday
  symbol and its name contains the dental marker, or when its name is one of the two
  administrative labels.
\<close>

definition spec_drops :: "slot_row \<Rightarrow> bool" where
  "spec_drops r \<longleftrightarrow>
     (week r = sunday \<and> sublist dental (name r))
     \<or> (name r = blood_donation \<or> name r = civic_hall_front)"

definition dental_clinic :: ustring where \<comment> \<open>U+6B6F U+79D1 U+533B U+9662\<close>
  "dental_clinic = [27503, 31185, 21307, 38498]"

definition dental_clinic_slot :: ustring where
  \<comment> \<open>\<open>dental_clinic\<close> followed by \<open>(09:00 U+FF5E 12:00)\<close>\<close>
  "dental_clinic_slot =
     [27503, 31185, 21307, 38498, 40, 48, 57, 58, 48, 48, 65374, 49, 50, 58, 48, 48, 41]"

text \<open>
  A slot-1 row of the city medical association hospital, a name of the list
  \<open>pediatrics\<close>, on a Sunday with no printed hours.
\<close>

definition city_medical_slot1 :: slot_row where
  "city_medical_slot1 =
     \<lparr>day = 7, week = sunday, variable = 1, name = city_medical, time = None\<rparr>"

text \<open>Island facilities in slot 2 of the same day: the first and the last name of \<open>island\<close>.\<close>

definition island_slot2_a :: slot_row where
  "island_slot2_a =
     \<lparr>day = 7, week = sunday, variable = 2,
      name = [12375, 12398, 12374, 12365, 25972, 24418, 22806, 31185], time = None\<rparr>"

definition island_slot2_b :: slot_row where
  "island_slot2_b =
     \<lparr>day = 7, week = sunday, variable = 2,
      name = [29255, 23665, 21307, 38498], time = None\<rparr>"

text \<open>
  The gap filler in the words of the specification: a day qualifies when some row of it
  is the Sunday slot-1 row of the hospital with type 0; \<open>island_slots\<close> counts the rows of
  a day with slot 2 and type 9.
\<close>

definition gap_day :: "typed_row list \<Rightarrow> int \<Rightarrow> bool" where
  "gap_day df d \<longleftrightarrow>
     (\<exists>r \<in> set df. day r = d \<and> week r = sunday \<and> variable r = 1 \<and> name r = city_medical
        \<and> type r = 0)"

definition island_slots :: "typed_row list \<Rightarrow> int \<Rightarrow> nat" where
  "island_slots df d = length (filter (\<lambda>r. day r = d \<and> variable r = 2 \<and> type r = 9) df)"



text \<open>
  A cell for day 31: \<open>31\<close>, a line break, \<open>hospital_a\<close> and \<open>(8:30 U+FF5E 17:30)\<close>; and the
  scenario's cell once line 24 has deleted its spaces.
\<close>

definition overflow_cell :: ustring where
  "overflow_cell =
     [51, 49, 10, 65, 30149, 38498, 40, 56, 58, 51, 48, 65374, 49, 55, 58, 51, 48, 41]"

definition scenario_cell_joined :: ustring where
  "scenario_cell_joined =
     [49, 65, 30149, 38498, 40, 48, 56, 58, 51, 48, 65374, 49, 55, 58, 51, 48, 41,
      66, 30149, 38498, 40, 49, 55, 58, 51, 48, 65374, 32716, 48, 56, 58, 51, 48, 41]"

text \<open>
  The date that \<open>day - 1\<close> days after the first of the month give, for a day up to 28 past
  the end of the month.
\<close>

definition rolled_date :: "int \<Rightarrow> int \<Rightarrow> int \<Rightarrow> date" where
  "rolled_date y m d =
     (if d \<le> days_in_month y m then (y, m, d)
      else if m < 12 then (y, m + 1, d - days_in_month y m)
      else (y + 1, 1, d - days_in_month y m))"

text \<open>
  The scenario's cell with line breaks for its two spaces and the hours as the scenario
  writes them, \<open>08:30\<close>.
\<close>

definition scenario_cell_padded :: ustring where
  "scenario_cell_padded =
     [49, 10, 65, 30149, 38498, 40, 48, 56, 58, 51, 48, 65374, 49, 55, 58, 51, 48, 41,
      10, 66, 30149, 38498, 40, 49, 55, 58, 51, 48, 65374, 32716, 48, 56, 58, 51, 48, 41]"

definition t_1730_next_00830 :: ustring where \<comment> \<open>17:30 U+FF5E U+7FCC 008:30\<close>
  "t_1730_next_00830 = [49, 55, 58, 51, 48, 65374, 32716, 48, 48, 56, 58, 51, 48]"

section \<open>The scenario, stage by stage\<close>

lemma scenario_process_table:
  "process_table (scenario_grid scenario_cell_lines) =
     Inr [(0, [], [49]), (0, [26376], scenario_cell_lines)]"
  by (simp add: process_table_def scenario_grid_def scenario_header_def scenario_cell_lines_def
      stack_def enumerate_eq_zip List.map_filter_def normalize_text_def str_replace_def
      str_strip_def strip_chars_def isspace_def lit)

lemma scenario_split_text:
  "split_text other [(0, [], [49]), (0, [26376], scenario_cell_lines)] =
     Inr (2, [\<lparr>day = 1, week = [], slots = []\<rparr>,
              \<lparr>day = 1, week = [26376],
               slots = [[65, 30149, 38498, 40, 56, 58, 51, 48, 65374, 49, 55, 58, 51, 48, 41],
                        [66, 30149, 38498, 40, 49, 55, 58, 51, 48, 65374, 32716, 56, 58, 51,
                         48, 41]]\<rparr>])"
  by (simp add: split_text_def scenario_cell_lines_def str_split_def isspace_def day_of_def
      to_numeric_def int_literal_def)

lemma scenario_melt_and_split:
  "melt_and_split
     (2, [\<lparr>day = 1, week = [], slots = []\<rparr>,
          \<lparr>day = 1, week = [26376],
           slots = [[65, 30149, 38498, 40, 56, 58, 51, 48, 65374, 49, 55, 58, 51, 48, 41],
                    [66, 30149, 38498, 40, 49, 55, 58, 51, 48, 65374, 32716, 56, 58, 51,
                     48, 41]]\<rparr>])
   = Inr [row_a, row_b]"
  by (simp add: melt_and_split_def melt_def List.map_filter_def upt_rec parse_slot_def
      row_a_def row_b_def hospital_a_def hospital_b_def str_replace_def str_strip_parens_def
      strip_chars_def lit)

lemma scenario_categorize_data:
  "categorize_data (filter_data [row_a, row_b]) =
     [\<lparr>day = 1, week = [26376], variable = 1, name = hospital_a,
       time = Some t_0830_1730, type = 1\<rparr>,
      \<lparr>day = 1, week = [26376], variable = 2, name = hospital_b,
       time = Some t_1730_next_0830, type = 2\<rparr>]"
  by (simp add: filter_data_def categorize_data_def categorize_row_def before_padding_def
      rule1_def rule2_def rule3_def rule4_def rule5_def rule6_def rule7_def rule8_def rule9_def
      rule10_def rule11_def rule12_def row_a_def row_b_def hospital_a_def hospital_b_def
      str_replace_def lit)

lemma scenario_add_missing_rows:
  "add_missing_rows (categorize_data (filter_data [row_a, row_b])) =
     [\<lparr>day = 1, week = [26376], variable = 1, name = hospital_a,
       time = Some t_0830_1730, type = 1\<rparr>,
      \<lparr>day = 1, week = [26376], variable = 2, name = hospital_b,
       time = Some t_1730_next_0830, type = 2\<rparr>]"
  unfolding scenario_categorize_data
  by (simp add: add_missing_rows_def new_rows_def island_days_def filtered_days_def
      sort_key3_def)

lemma resolve_date_first: "resolve_date 2024 6 1 = Inr (2024, 6, 1)"
  by (simp add: resolve_date_def plus_days_def)

lemma scenario_load_data:
  "load_data other (scenario_grid scenario_cell_lines) 2024 6 = Inr scenario_records"
  by (simp add: load_data_def scenario_process_table scenario_split_text
      scenario_melt_and_split scenario_add_missing_rows resolve_dates_def resolve_date_first
      scenario_records_def)

section \<open>Substring search and the zero-padding scan\<close>

lemma str_contains_sublist: "str_contains pat s \<longleftrightarrow> sublist pat s"
  by (induction s) (simp_all add: sublist_Cons_right)

lemma prefix_str_contains: "prefix pat s \<Longrightarrow> str_contains pat s"
  by (cases s) simp_all

lemma pad_Nil: "pad [] = []"
  by (simp add: pad_def str_replace_def lit)

lemma pad_match: "pad (56 # 58 # 51 # 48 # s) = 48 # 56 # 58 # 51 # 48 # pad s"
  by (simp add: pad_def str_replace_def lit)

lemma pad_skip: "\<not> prefix s_830 (c # cs) \<Longrightarrow> pad (c # cs) = c # pad cs"
  by (simp add: pad_def str_replace_def lit)

lemma prefix_830: "prefix s_830 s \<longleftrightarrow> (\<exists>s'. s = 56 # 58 # 51 # 48 # s')"
  by (auto simp: s_830_def prefix_def)

lemma pad_cases [case_names Nil Match Skip]:
  obtains "s = []"
  | s' where "s = 56 # 58 # 51 # 48 # s'"
  | c cs where "s = c # cs" "\<not> prefix s_830 s"
  by (cases s) (auto simp: prefix_830)

text \<open>The first character of a padded string: the inserted zero, or the input's own.\<close>

lemma pad_hd:
  assumes "pad s = x # ys"
  shows "(x = 48 \<and> prefix s_830 s) \<or> (\<not> prefix s_830 s \<and> (\<exists>cs. s = x # cs \<and> ys = pad cs))"
proof (cases s rule: pad_cases)
  case Nil
  with assms show ?thesis by (simp add: pad_Nil)
next
  case (Match s')
  with assms show ?thesis by (simp add: pad_match prefix_830)
next
  case (Skip c cs)
  with assms show ?thesis by (simp add: pad_skip)
qed

text \<open>
  A padded string begins with \<open>8:30\<close> only when the input begins with \<open>8:38:30\<close>: the scan
  copies \<open>8:3\<close> and then puts its zero where the copied text needed one.
\<close>

lemma pad_starts_830:
  assumes "prefix s_830 (pad s)"
  shows "prefix s_83830 s"
proof -
  from assms obtain zs where p0: "pad s = 56 # 58 # 51 # 48 # zs"
    by (auto simp: prefix_830)
  from pad_hd [OF p0] obtain c1 where s: "s = 56 # c1" and n0: "\<not> prefix s_830 s"
    and p1: "pad c1 = 58 # 51 # 48 # zs" by auto
  from pad_hd [OF p1] obtain c2 where c1: "c1 = 58 # c2" and p2: "pad c2 = 51 # 48 # zs"
    by auto
  from pad_hd [OF p2] obtain c3 where c2: "c2 = 51 # c3" and p3: "pad c3 = 48 # zs"
    by auto
  from pad_hd [OF p3] have "prefix s_830 c3 \<or> (\<exists>c4. c3 = 48 # c4)" by auto
  then show ?thesis
  proof
    assume "prefix s_830 c3"
    then show ?thesis by (auto simp: s c1 c2 prefix_830 s_83830_def)
  next
    assume "\<exists>c4. c3 = 48 # c4"
    with n0 show ?thesis by (auto simp: s c1 c2 prefix_830)
  qed
qed

lemma pad_all_padded:
  "\<not> str_contains s_83830 s \<Longrightarrow> (prefix s_830 (pad s) \<longrightarrow> p = Some 48)
     \<Longrightarrow> all_padded p (pad s)"
proof (induction s arbitrary: p rule: measure_induct_rule [of length])
  case (less s)
  show ?case
  proof (cases s rule: pad_cases)
    case Nil
    then show ?thesis by (simp add: pad_Nil)
  next
    case (Match s')
    from less.prems(1) have "\<not> str_contains s_83830 s'" by (simp add: Match)
    then have "all_padded (Some 48) (pad s')"
      by (intro less.IH) (simp_all add: Match)
    then show ?thesis
      by (simp add: Match pad_match s_830_def)
  next
    case (Skip c cs)
    from less.prems(1) have nb: "\<not> str_contains s_83830 cs"
      by (simp add: Skip)
    then have np: "\<not> prefix s_83830 cs"
      using prefix_str_contains by blast
    have ps: "pad s = c # pad cs" using Skip by (simp add: pad_skip)
    from np pad_starts_830 have "\<not> prefix s_830 (pad cs)" by blast
    with nb have "all_padded (Some c) (pad cs)"
      by (intro less.IH) (simp_all add: Skip)
    with less.prems(2) show ?thesis by (simp add: ps)
  qed
qed

lemma pad_padded: "\<not> str_contains s_83830 s \<Longrightarrow> all_padded None (pad s)"
proof -
  assume n: "\<not> str_contains s_83830 s"
  then have "\<not> prefix s_830 (pad s)"
    using pad_starts_830 prefix_str_contains by blast
  with n show ?thesis by (simp add: pad_all_padded)
qed

text \<open>What \<open>all_padded\<close> says about the occurrences of \<open>8:30\<close>.\<close>

lemma all_padded_occurrence:
  "all_padded p t \<Longrightarrow> t = u @ s_830 @ v \<Longrightarrow> (if u = [] then p = Some 48 else last u = 48)"
proof (induction u arbitrary: p t)
  case Nil
  then show ?case by (cases t) (auto simp: s_830_def)
next
  case (Cons a u)
  from Cons.prems have "all_padded (Some a) (u @ s_830 @ v)" by auto
  from Cons.IH [OF this refl] show ?case by (auto split: if_splits)
qed

text \<open>
  An occurrence of \<open>08:30\<close> in the input leaves \<open>008:30\<close> in the output; \<open>p\<close> is the
  character before the rest of the string.
\<close>

lemma pad_doubles_zero:
  "(p = 48 \<and> prefix s_830 s) \<or> str_contains s_0830 s \<Longrightarrow> str_contains s_00830 (p # pad s)"
proof (induction s arbitrary: p rule: measure_induct_rule [of length])
  case (less s)
  show ?case
  proof (cases s rule: pad_cases)
    case Nil
    with less.prems show ?thesis by (simp add: lit)
  next
    case (Match s')
    show ?thesis
    proof (cases "p = 48")
      case True
      then show ?thesis by (simp add: Match pad_match s_00830_def)
    next
      case False
      with less.prems have "str_contains s_0830 s" by blast
      then have "(48 = (48::nat) \<and> prefix s_830 s') \<or> str_contains s_0830 s'"
        by (simp add: Match s_0830_def s_830_def)
      then have "str_contains s_00830 (48 # pad s')"
        by (intro less.IH) (simp_all add: Match)
      then show ?thesis by (simp add: Match pad_match)
    qed
  next
    case (Skip c cs)
    have ps: "pad s = c # pad cs" using Skip by (simp add: pad_skip)
    from less.prems Skip have "str_contains s_0830 (c # cs)" by blast
    then have "(c = 48 \<and> prefix s_830 cs) \<or> str_contains s_0830 cs"
      by (auto simp: s_0830_def s_830_def)
    then have "str_contains s_00830 (c # pad cs)"
      by (intro less.IH) (simp_all add: Skip)
    then show ?thesis by (simp add: ps)
  qed
qed

lemma pad_contains_00830: "str_contains s_0830 s \<Longrightarrow> str_contains s_00830 (pad s)"
proof -
  assume "str_contains s_0830 s"
  then have "(0 = (48::nat) \<and> prefix s_830 s) \<or> str_contains s_0830 s" by simp
  then have "str_contains s_00830 (0 # pad s)" by (rule pad_doubles_zero)
  then show ?thesis by (simp add: s_00830_def)
qed

section \<open>The classifier, rule by rule\<close>

lemma rule1_type: "type (rule1 r) \<in> classifier_types"
  by (simp add: rule1_def classifier_types_def)

lemma rule2_type: "type r \<in> classifier_types \<Longrightarrow> type (rule2 r) \<in> classifier_types"
  by (simp add: rule2_def classifier_types_def)

lemma rule3_type: "type r \<in> classifier_types \<Longrightarrow> type (rule3 r) \<in> classifier_types"
  by (simp add: rule3_def classifier_types_def)

lemma rule4_type: "type (rule4 r) = type r"
  by (simp add: rule4_def)

lemma rule5_type: "type (rule5 r) = type r"
  by (simp add: rule5_def)

lemma rule6_type: "type r \<in> classifier_types \<Longrightarrow> type (rule6 r) \<in> classifier_types"
  by (simp add: rule6_def classifier_types_def)

lemma rule7_type: "type (rule7 r) = type r"
  by (simp add: rule7_def)

lemma rule8_type: "type (rule8 r) = type r"
  by (simp add: rule8_def)

lemma rule9_type: "type r \<in> classifier_types \<Longrightarrow> type (rule9 r) \<in> classifier_types"
  by (simp add: rule9_def classifier_types_def)

lemma rule10_type: "type r \<in> classifier_types \<Longrightarrow> type (rule10 r) \<in> classifier_types"
  by (simp add: rule10_def classifier_types_def)

lemma rule11_type: "type r \<in> classifier_types \<Longrightarrow> type (rule11 r) \<in> classifier_types"
  by (simp add: rule11_def classifier_types_def)

lemma rule12_type: "type r \<in> classifier_types \<Longrightarrow> type (rule12 r) \<in> classifier_types"
  by (simp add: rule12_def classifier_types_def)

lemma categorize_row_type: "type (categorize_row r) \<in> classifier_types"
  unfolding categorize_row_def before_padding_def
  by (intro rule12_type rule11_type rule10_type rule9_type)
     (simp add: rule8_type rule7_type rule5_type rule4_type rule6_type rule3_type rule2_type
        rule1_type)

text \<open>The rules after the padding change the type only; they fire on four exact times.\<close>

lemma time_after_padding: "time (categorize_row r) = time (rule8 (before_padding r))"
  by (simp add: categorize_row_def rule9_def rule10_def rule11_def rule12_def)

lemma time_rule8: "time (rule8 r) = map_option pad (time r)"
  by (cases "time r") (simp_all add: rule8_def pad_def)

lemma type_after_padding:
  assumes "time (rule8 x) = Some t"
    and "t \<noteq> t_0830_1730" "t \<noteq> t_1730_next_0830" "t \<noteq> t_0830_1715_2230_next_0830"
      "t \<noteq> t_1715_2230"
  shows "type (rule12 (rule11 (rule10 (rule9 (rule8 x))))) = type x"
  using assms by (simp add: rule9_def rule10_def rule11_def rule12_def rule8_type)

text \<open>Before the padding a time is the slot's own or one of three fixed strings.\<close>

lemma no_83830_rule1: "no_83830 r \<Longrightarrow> no_83830 (rule1 r)"
  by (simp add: no_83830_def rule1_def)

lemma no_83830_rule2: "no_83830 r \<Longrightarrow> no_83830 (rule2 r)"
  by (simp add: no_83830_def rule2_def)

lemma no_83830_rule3: "no_83830 r \<Longrightarrow> no_83830 (rule3 r)"
  by (simp add: no_83830_def rule3_def)

lemma no_83830_rule4: "no_83830 r \<Longrightarrow> no_83830 (rule4 r)"
  by (simp add: no_83830_def rule4_def s_83830_def t_0900_1200_1400_1700_def)

lemma no_83830_rule5: "no_83830 r \<Longrightarrow> no_83830 (rule5 r)"
  by (simp add: no_83830_def rule5_def s_83830_def t_0900_1700_def)

lemma no_83830_rule6: "no_83830 r \<Longrightarrow> no_83830 (rule6 r)"
  by (simp add: no_83830_def rule6_def)

lemma no_83830_rule7: "no_83830 r \<Longrightarrow> no_83830 (rule7 r)"
  by (simp add: no_83830_def rule7_def s_83830_def t_830_next_830_def)

lemma no_83830_before_padding: "no_83830 r \<Longrightarrow> no_83830 (before_padding r)"
  unfolding before_padding_def
  by (intro no_83830_rule7 no_83830_rule6 no_83830_rule5 no_83830_rule4 no_83830_rule3
      no_83830_rule2 no_83830_rule1)

lemma categorize_row_padded:
  assumes "no_83830 r" and "time (categorize_row r) = Some t"
  shows "all_padded None t"
proof -
  from assms(2) obtain t0 where t0: "time (before_padding r) = Some t0" and t: "t = pad t0"
    by (auto simp: time_after_padding time_rule8)
  from no_83830_before_padding [OF assms(1)] t0 have "\<not> str_contains s_83830 t0"
    by (simp add: no_83830_def)
  then show ?thesis unfolding t by (rule pad_padded)
qed

text \<open>
  Line 80 asks for \<open>variable > 1\<close> and line 86 for \<open>variable == 1\<close>: no row meets both
  conditions. A row of slot 1 with no time and a name outside the list \<open>island\<close> ends with
  type 0.
\<close>

lemma rule3_rule6_exclusive:
  "\<not> ((variable r > 1 \<and> name r \<in> set pediatrics
          \<and> \<not> str_contains next_day_mark (case time r of None \<Rightarrow> [] | Some t \<Rightarrow> t))
       \<and> (time r = None \<and> variable r = 1))"
  by auto

lemma rule6_fires:
  assumes "variable r = 1" and "time r = None" and "name r \<notin> set island"
  shows "type (categorize_row r) = 0 \<and> time (categorize_row r) = Some t_0830_next_0830"
  using assms
  by (simp add: categorize_row_def before_padding_def rule1_def rule2_def rule3_def rule4_def
      rule5_def rule6_def rule7_def rule8_def rule9_def rule10_def rule11_def rule12_def
      t_0830_next_0830_def str_replace_def s_830_def s_0830_def t_830_next_830_def)

section \<open>The gap filler and the dates\<close>

lemma new_rows_type: "r \<in> set (new_rows df) \<Longrightarrow> type r = 6 \<or> type r = 7"
  by (auto simp: new_rows_def new_rows_of_def)

lemma new_rows_time:
  "r \<in> set (new_rows df) \<Longrightarrow> time r = Some t_0900_1730 \<or> time r = Some t_0900_1200_1400_1700"
  by (auto simp: new_rows_def new_rows_of_def)

lemma set_add_missing_rows: "set (add_missing_rows df) = set df \<union> set (new_rows df)"
  by (simp add: add_missing_rows_def)

lemma add_dates_rows:
  "add_dates y m rs = Inr out \<Longrightarrow> map snd out = map (\<lambda>r. (name r, type r, time r)) rs"
  by (induction rs arbitrary: out) (auto split: sum.splits)

lemma resolve_dates_rows:
  "resolve_dates y m rs = Inr out \<Longrightarrow> map snd out = map (\<lambda>r. (name r, type r, time r)) rs"
  by (auto simp: resolve_dates_def add_dates_rows split: if_splits)

lemma resolve_date_sum: "resolve_date y m d = Inr dt \<Longrightarrow> dt = plus_days (y, m, 1) (d - 1)"
  by (auto simp: resolve_date_def Let_def split: if_splits)

lemma add_dates_sum:
  "add_dates y m rs = Inr out \<Longrightarrow>
     out = map (\<lambda>r. (plus_days (y, m, 1) (day r - 1), name r, type r, time r)) rs"
  by (induction rs arbitrary: out) (auto split: sum.splits dest: resolve_date_sum)

lemma resolve_dates_sum:
  "resolve_dates y m rs = Inr out \<Longrightarrow>
     out = map (\<lambda>r. (plus_days (y, m, 1) (day r - 1), name r, type r, time r)) rs"
  by (auto simp: resolve_dates_def add_dates_sum split: if_splits)

lemma filter_day_new_rows:
  "filter (\<lambda>r. day r = d) (concat (map new_rows_of ds))
     = concat (replicate (count_list ds d) (new_rows_of d))"
  by (induction ds) (simp_all add: new_rows_of_def)

lemma count_list_map_filter:
  "count_list (map f (filter P xs)) d = length (filter (\<lambda>x. P x \<and> f x = d) xs)"
  by (induction xs) simp_all

lemma filtered_days_gap_day: "d \<in> set (filtered_days df) \<longleftrightarrow> gap_day df d"
  by (auto simp: filtered_days_def gap_day_def)

lemma count_island_days:
  "count_list (island_days df) d = (if gap_day df d then island_slots df d else 0)"
proof -
  have "filter (\<lambda>r. (day r \<in> set (filtered_days df) \<and> variable r = 2 \<and> type r = 9)
                     \<and> day r = d) df
        = filter (\<lambda>r. gap_day df d \<and> (day r = d \<and> variable r = 2 \<and> type r = 9)) df"
    by (rule filter_cong) (auto simp: filtered_days_gap_day)
  then show ?thesis
    by (cases "gap_day df d")
       (simp_all add: island_days_def count_list_map_filter island_slots_def)
qed

lemma categorize_gap_rows:
  "categorize_row city_medical_slot1 =
     \<lparr>day = 7, week = sunday, variable = 1, name = city_medical,
      time = Some t_0830_next_0830, type = 0\<rparr>"
  "categorize_row island_slot2_a =
     \<lparr>day = 7, week = sunday, variable = 2,
      name = [12375, 12398, 12374, 12365, 25972, 24418, 22806, 31185],
      time = Some t_0900_1700, type = 9\<rparr>"
  "categorize_row island_slot2_b =
     \<lparr>day = 7, week = sunday, variable = 2,
      name = [29255, 23665, 21307, 38498], time = Some t_0900_1700, type = 9\<rparr>"
  by (simp_all add: categorize_row_def before_padding_def rule1_def rule2_def rule3_def
      rule4_def rule5_def rule6_def rule7_def rule8_def rule9_def rule10_def rule11_def
      rule12_def city_medical_slot1_def island_slot2_a_def island_slot2_b_def
      t_0830_next_0830_def str_replace_def lit)

section \<open>The day splitter\<close>








section \<open>The calendar\<close>

lemma days_in_month_bounds: "28 \<le> days_in_month y m" "days_in_month y m \<le> 31"
  by (simp_all add: days_in_month_def)

lemma funpow_next_day:
  "1 \<le> d \<Longrightarrow> d + int k \<le> days_in_month y m \<Longrightarrow> (next_day ^^ k) (y, m, d) = (y, m, d + int k)"
proof (induction k arbitrary: d)
  case 0
  show ?case by simp
next
  case (Suc k)
  from Suc.prems have "(next_day ^^ k) (y, m, d + 1) = (y, m, d + 1 + int k)"
    by (intro Suc.IH) simp_all
  moreover from Suc.prems have "next_day (y, m, d) = (y, m, d + 1)" by simp
  ultimately show ?case by (simp add: funpow_swap1)
qed

lemma plus_days_rolled:
  assumes "1 \<le> d" and "d \<le> days_in_month y m + 28"
  shows "plus_days (y, m, 1) (d - 1) = rolled_date y m d"
proof (cases "d \<le> days_in_month y m")
  case True
  from assms(1) True have "(next_day ^^ nat (d - 1)) (y, m, 1) = (y, m, 1 + int (nat (d - 1)))"
    by (intro funpow_next_day) simp_all
  with assms(1) True show ?thesis by (simp add: plus_days_def rolled_date_def)
next
  case False
  define a where "a = nat (d - days_in_month y m - 1)"
  define b where "b = nat (days_in_month y m - 1)"
  define nm where "nm = (if m < 12 then (y, m + 1, 1 :: int) else (y + 1, 1, 1))"
  from False days_in_month_bounds [of y m]
  have n: "nat (d - 1) = a + Suc b" by (simp add: a_def b_def)
  have e: "(next_day ^^ b) (y, m, 1) = (y, m, 1 + int b)"
    using days_in_month_bounds [of y m] by (intro funpow_next_day) (simp_all add: b_def)
  have b1: "1 + int b = days_in_month y m"
    using days_in_month_bounds [of y m] by (simp add: b_def)
  have s: "(next_day ^^ Suc b) (y, m, 1) = nm"
    by (simp add: e b1 nm_def)
  have r: "(next_day ^^ a) (y', m', 1) = (y', m', 1 + int a)" for y' m'
    using assms(2) False days_in_month_bounds [of y' m']
    by (intro funpow_next_day) (simp_all add: a_def)
  have ia: "1 + int a = d - days_in_month y m"
    using False by (simp add: a_def)
  have "(next_day ^^ nat (d - 1)) (y, m, 1) = (next_day ^^ a) nm"
    unfolding n funpow_add by (simp only: o_apply s)
  also have "\<dots> = rolled_date y m d"
    using False by (simp add: nm_def r ia rolled_date_def)
  finally show ?thesis using assms(1) by (simp add: plus_days_def)
qed

text \<open>The day after is a later date, so the last day of a month is passed for good.\<close>

lemma next_day_later: "x < next_day x"
  by (cases x) auto

lemma funpow_next_day_later: "x \<le> (next_day ^^ k) x"
proof (induction k)
  case 0
  show ?case by simp
next
  case (Suc k)
  have "(next_day ^^ k) x < next_day ((next_day ^^ k) x)" by (rule next_day_later)
  with Suc.IH show ?case by simp
qed

lemma plus_days_after_month:
  assumes "days_in_month y m < d"
  shows "(y, m, days_in_month y m) < plus_days (y, m, 1) (d - 1)"
proof -
  define a where "a = nat (d - days_in_month y m - 1)"
  define b where "b = nat (days_in_month y m - 1)"
  define nm where "nm = (if m < 12 then (y, m + 1, 1 :: int) else (y + 1, 1, 1))"
  from assms days_in_month_bounds [of y m]
  have n: "nat (d - 1) = a + Suc b" and d: "0 \<le> d - 1" by (simp_all add: a_def b_def)
  have e: "(next_day ^^ b) (y, m, 1) = (y, m, 1 + int b)"
    using days_in_month_bounds [of y m] by (intro funpow_next_day) (simp_all add: b_def)
  have b1: "1 + int b = days_in_month y m"
    using days_in_month_bounds [of y m] by (simp add: b_def)
  have s: "(next_day ^^ Suc b) (y, m, 1) = nm"
    by (simp add: e b1 nm_def)
  have "(next_day ^^ nat (d - 1)) (y, m, 1) = (next_day ^^ a) nm"
    unfolding n funpow_add by (simp only: o_apply s)
  moreover have "nm \<le> (next_day ^^ a) nm" by (rule funpow_next_day_later)
  moreover have "(y, m, days_in_month y m) < nm" by (simp add: nm_def)
  ultimately have "(y, m, days_in_month y m) < (next_day ^^ nat (d - 1)) (y, m, 1)" by simp
  with d show ?thesis by (simp add: plus_days_def)
qed

lemma resolve_date_rolled:
  assumes "1 \<le> m" "m \<le> 12" "(1677, 10) \<le> (y, m)" "(y, m) \<le> (2262, 2)"
    "1 \<le> d" "d \<le> days_in_month y m + 28"
  shows "resolve_date y m d = Inr (rolled_date y m d)"
proof -
  have p: "plus_days (y, m, 1) (d - 1) = rolled_date y m d"
    using assms(5,6) by (rule plus_days_rolled)
  have "(1677, 9, 22) \<le> rolled_date y m d \<and> rolled_date y m d \<le> (2262, 4, 11)"
    using assms days_in_month_bounds [of y m] by (auto simp: rolled_date_def)
  moreover have "\<not> \<bar>d - 1\<bar> > 106751"
    using assms(5,6) days_in_month_bounds [of y m] by simp
  ultimately show ?thesis by (simp add: resolve_date_def p)
qed

lemma add_dates_rolled:
  assumes "1 \<le> m" "m \<le> 12" "(1677, 10) \<le> (y, m)" "(y, m) \<le> (2262, 2)"
    and "\<forall>r \<in> set df. 1 \<le> day r \<and> day r \<le> days_in_month y m + 28"
  shows "add_dates y m df =
    Inr (map (\<lambda>r. (rolled_date y m (day r), name r, type r, time r)) df)"
  using assms(5)
proof (induction df)
  case Nil
  show ?case by simp
next
  case (Cons r df)
  from Cons.prems have "resolve_date y m (day r) = Inr (rolled_date y m (day r))"
    by (intro resolve_date_rolled assms(1-4)) simp_all
  moreover from Cons.prems have "add_dates y m df =
      Inr (map (\<lambda>r. (rolled_date y m (day r), name r, type r, time r)) df)"
    by (intro Cons.IH) simp
  ultimately show ?case by simp
qed

lemma resolve_dates_rolled:
  assumes "1 \<le> m" "m \<le> 12" "(1677, 10) \<le> (y, m)" "(y, m) \<le> (2262, 2)"
    and "\<forall>r \<in> set df. 1 \<le> day r \<and> day r \<le> days_in_month y m + 28"
  shows "resolve_dates y m df =
    Inr (map (\<lambda>r. (rolled_date y m (day r), name r, type r, time r)) df)"
proof -
  have "\<not> \<bar>day r - 1\<bar> > 106751" if "r \<in> set df" for r
    using assms(5) that days_in_month_bounds [of y m] by auto
  then have "\<not> list_ex (\<lambda>r. \<bar>day r - 1\<bar> > 106751) df"
    by (auto simp: list_ex_iff)
  then show ?thesis
    by (simp add: resolve_dates_def add_dates_rolled [OF assms])
qed

section \<open>Three more grids, stage by stage\<close>

text \<open>The cell for day 31.\<close>

lemma overflow_process_table:
  "process_table (scenario_grid overflow_cell) =
     Inr [(0, [], [49]), (0, [26376], overflow_cell)]"
  by (simp add: process_table_def scenario_grid_def scenario_header_def overflow_cell_def
      stack_def enumerate_eq_zip List.map_filter_def normalize_text_def str_replace_def
      str_strip_def strip_chars_def isspace_def lit)

lemma overflow_split_text:
  "split_text other [(0, [], [49]), (0, [26376], overflow_cell)] =
     Inr (1, [\<lparr>day = 1, week = [], slots = []\<rparr>,
              \<lparr>day = 31, week = [26376],
               slots = [[65, 30149, 38498, 40, 56, 58, 51, 48, 65374, 49, 55, 58, 51, 48,
                         41]]\<rparr>])"
  by (simp add: split_text_def overflow_cell_def str_split_def isspace_def day_of_def
      to_numeric_def int_literal_def)

lemma overflow_melt_and_split:
  "melt_and_split
     (1, [\<lparr>day = 1, week = [], slots = []\<rparr>,
          \<lparr>day = 31, week = [26376],
           slots = [[65, 30149, 38498, 40, 56, 58, 51, 48, 65374, 49, 55, 58, 51, 48,
                     41]]\<rparr>])
   = Inr [row_a\<lparr>day := 31\<rparr>]"
  by (simp add: melt_and_split_def melt_def List.map_filter_def upt_rec parse_slot_def
      row_a_def hospital_a_def str_replace_def str_strip_parens_def strip_chars_def lit)

lemma overflow_rows:
  "add_missing_rows (categorize_data (filter_data [row_a\<lparr>day := 31\<rparr>])) =
     [\<lparr>day = 31, week = [26376], variable = 1, name = hospital_a,
       time = Some t_0830_1730, type = 1\<rparr>]"
  by (simp add: add_missing_rows_def new_rows_def island_days_def filtered_days_def
      filter_data_def categorize_data_def categorize_row_def before_padding_def
      rule1_def rule2_def rule3_def rule4_def rule5_def rule6_def rule7_def rule8_def rule9_def
      rule10_def rule11_def rule12_def row_a_def hospital_a_def str_replace_def lit)

lemma june_2024: "days_in_month 2024 6 = 30"
  by (simp add: days_in_month_def)

lemma resolve_date_overflow: "resolve_date 2024 6 31 = Inr (2024, 7, 1)"
proof -
  have "resolve_date 2024 6 31 = Inr (rolled_date 2024 6 31)"
    by (rule resolve_date_rolled) (simp_all add: june_2024)
  then show ?thesis by (simp add: rolled_date_def june_2024)
qed

text \<open>The scenario's cell as written: line 24 deletes the spaces that separate its tokens.\<close>

lemma joined_process_table:
  "process_table (scenario_grid scenario_cell) =
     Inr [(0, [], [49]), (0, [26376], scenario_cell_joined)]"
  by (simp add: process_table_def scenario_grid_def scenario_header_def scenario_cell_def
      scenario_cell_joined_def stack_def enumerate_eq_zip List.map_filter_def
      normalize_text_def str_replace_def str_strip_def strip_chars_def isspace_def lit)

lemma joined_split_text:
  "split_text no_other [(0, [], [49]), (0, [26376], scenario_cell_joined)] =
     Inr (0, [\<lparr>day = 1, week = [], slots = []\<rparr>])"
  by (simp add: split_text_def scenario_cell_joined_def str_split_def isspace_def day_of_def
      to_numeric_def int_literal_def no_other_def)

lemma joined_melt_and_split:
  "melt_and_split (0, [\<lparr>day = 1, week = [], slots = []\<rparr>]) = Inl AttributeError"
  by (simp add: melt_and_split_def)

text \<open>The scenario's cell with line breaks and the hours written \<open>08:30\<close>.\<close>

lemma padded_process_table:
  "process_table (scenario_grid scenario_cell_padded) =
     Inr [(0, [], [49]), (0, [26376], scenario_cell_padded)]"
  by (simp add: process_table_def scenario_grid_def scenario_header_def
      scenario_cell_padded_def stack_def enumerate_eq_zip List.map_filter_def
      normalize_text_def str_replace_def str_strip_def strip_chars_def isspace_def lit)

lemma padded_split_text:
  "split_text other [(0, [], [49]), (0, [26376], scenario_cell_padded)] =
     Inr (2, [\<lparr>day = 1, week = [], slots = []\<rparr>,
              \<lparr>day = 1, week = [26376],
               slots = [[65, 30149, 38498, 40, 48, 56, 58, 51, 48, 65374, 49, 55, 58, 51,
                         48, 41],
                        [66, 30149, 38498, 40, 49, 55, 58, 51, 48, 65374, 32716, 48, 56, 58,
                         51, 48, 41]]\<rparr>])"
  by (simp add: split_text_def scenario_cell_padded_def str_split_def isspace_def day_of_def
      to_numeric_def int_literal_def)

lemma padded_melt_and_split:
  "melt_and_split
     (2, [\<lparr>day = 1, week = [], slots = []\<rparr>,
          \<lparr>day = 1, week = [26376],
           slots = [[65, 30149, 38498, 40, 48, 56, 58, 51, 48, 65374, 49, 55, 58, 51,
                     48, 41],
                    [66, 30149, 38498, 40, 49, 55, 58, 51, 48, 65374, 32716, 48, 56, 58,
                     51, 48, 41]]\<rparr>])
   = Inr [row_a\<lparr>time := Some t_0830_1730\<rparr>, row_b\<lparr>time := Some t_1730_next_0830\<rparr>]"
  by (simp add: melt_and_split_def melt_def List.map_filter_def upt_rec parse_slot_def
      row_a_def row_b_def hospital_a_def hospital_b_def str_replace_def str_strip_parens_def
      strip_chars_def lit)

lemma padded_rows:
  "add_missing_rows (categorize_data (filter_data
      [row_a\<lparr>time := Some t_0830_1730\<rparr>, row_b\<lparr>time := Some t_1730_next_0830\<rparr>])) =
     [\<lparr>day = 1, week = [26376], variable = 1, name = hospital_a,
       time = Some t_00830_1730, type = 8\<rparr>,
      \<lparr>day = 1, week = [26376], variable = 2, name = hospital_b,
       time = Some t_1730_next_00830, type = 8\<rparr>]"
  by (simp add: add_missing_rows_def new_rows_def island_days_def filtered_days_def
      sort_key3_def filter_data_def categorize_data_def categorize_row_def before_padding_def
      rule1_def rule2_def rule3_def rule4_def rule5_def rule6_def rule7_def rule8_def rule9_def
      rule10_def rule11_def rule12_def row_a_def row_b_def hospital_a_def hospital_b_def
      t_00830_1730_def t_1730_next_00830_def str_replace_def lit)

section \<open>The days of the rows that reach the date stage\<close>

lemma day_rules:
  "day (rule1 r0) = day r0" "day (rule2 r) = day r" "day (rule3 r) = day r"
  "day (rule4 r) = day r" "day (rule5 r) = day r" "day (rule6 r) = day r"
  "day (rule7 r) = day r" "day (rule8 r) = day r" "day (rule9 r) = day r"
  "day (rule10 r) = day r" "day (rule11 r) = day r" "day (rule12 r) = day r"
  by (simp_all add: rule1_def rule2_def rule3_def rule4_def rule5_def rule6_def rule7_def
      rule8_def rule9_def rule10_def rule11_def rule12_def)

lemma day_categorize_row: "day (categorize_row r) = day r"
  by (simp add: categorize_row_def before_padding_def day_rules)

lemma day_new_rows: "r \<in> set (new_rows df) \<Longrightarrow> day r \<in> day ` set df"
  by (auto simp: new_rows_def new_rows_of_def island_days_def)

lemma day_final_rows:
  assumes "r \<in> set (add_missing_rows (categorize_data (filter_data df)))"
  shows "day r \<in> day ` set df"
proof -
  have c: "day ` set (categorize_data (filter_data df)) \<subseteq> day ` set df"
    by (auto simp: categorize_data_def filter_data_def day_categorize_row)
  from assms have "day r \<in> day ` set (categorize_data (filter_data df))"
    using day_new_rows by (auto simp: set_add_missing_rows)
  with c show ?thesis by blast
qed

section \<open>The claims\<close>

text \<open>
  C8. \<open>filter_data\<close> keeps exactly the rows that the specification's predicate does not
  drop, each row judged on its own week and name, in the order of the input. The slot
  \<open>dental_clinic_slot\<close> in a Sunday column parses to the name \<open>dental_clinic\<close> and is
  dropped wherever it stands.
\<close>

theorem filter_data_drops_iff:
  "filter_data df = filter (\<lambda>r. \<not> spec_drops r) df
   \<and> name (parse_slot (d, sunday, v, dental_clinic_slot)) = dental_clinic
   \<and> spec_drops (parse_slot (d, sunday, v, dental_clinic_slot))
   \<and> filter_data (df1 @ [parse_slot (d, sunday, v, dental_clinic_slot)] @ df2)
       = filter_data (df1 @ df2)"
proof -
  have p: "parse_slot (d, sunday, v, dental_clinic_slot) =
      \<lparr>day = d, week = sunday, variable = v, name = dental_clinic,
       time = Some [48, 57, 58, 48, 48, 65374, 49, 50, 58, 48, 48]\<rparr>"
    by (simp add: parse_slot_def dental_clinic_slot_def dental_clinic_def str_replace_def
        str_strip_parens_def strip_chars_def lit)
  have f: "filter_data df = filter (\<lambda>r. \<not> spec_drops r) df" for df
    by (simp add: filter_data_def spec_drops_def str_contains_sublist)
  have s: "spec_drops (parse_slot (d, sunday, v, dental_clinic_slot))"
    unfolding p by (simp add: spec_drops_def str_contains_sublist [symmetric] dental_clinic_def lit)
  show ?thesis using s by (simp add: f p)
qed

text \<open>
  C9. The classifier assigns only the codes 0, 1, 2, 3, 4, 7, 8 and 9, the gap filler only
  6 and 7, and every record that \<open>load_data\<close> returns carries one of these nine codes;
  5 is never among them.
\<close>

theorem output_types_defined:
  "(\<forall>r \<in> set (categorize_data df). type r \<in> {0, 1, 2, 3, 4, 7, 8, 9})
   \<and> (\<forall>r \<in> set (new_rows df'). type r \<in> {6, 7})
   \<and> (load_data other table y m = Inr out \<longrightarrow>
        (\<forall>(dt, n, ty, t) \<in> set out. ty \<in> {0, 1, 2, 3, 4, 6, 7, 8, 9}))"
proof (intro conjI ballI impI)
  fix r assume "r \<in> set (categorize_data df)"
  then show "type r \<in> {0, 1, 2, 3, 4, 7, 8, 9}"
    using categorize_row_type by (auto simp: categorize_data_def classifier_types_def)
next
  fix r assume "r \<in> set (new_rows df')"
  then show "type r \<in> {6, 7}" using new_rows_type by auto
next
  fix rec assume ld: "load_data other table y m = Inr out" and rec: "rec \<in> set out"
  from ld obtain df3 where
    out: "resolve_dates y m (add_missing_rows (categorize_data (filter_data df3))) = Inr out"
    by (auto simp: load_data_def split: sum.splits if_splits)
  from rec have "snd rec \<in> set (map snd out)" by simp
  then obtain r where r: "r \<in> set (add_missing_rows (categorize_data (filter_data df3)))"
    and sr: "snd rec = (name r, type r, time r)"
    unfolding resolve_dates_rows [OF out] by auto
  from r have "type r \<in> classifier_types \<or> type r = 6 \<or> type r = 7"
    using categorize_row_type new_rows_type
    by (auto simp: set_add_missing_rows categorize_data_def)
  then have "type r \<in> {0, 1, 2, 3, 4, 6, 7, 8, 9}"
    by (auto simp: classifier_types_def)
  with sr show "case rec of (dt, n, ty, t) \<Rightarrow> ty \<in> {0, 1, 2, 3, 4, 6, 7, 8, 9}"
    by (cases rec) auto
qed

theorem output_types_defined_witness:
  "load_data no_other (scenario_grid scenario_cell_lines) 2024 6 = Inr scenario_records
   \<and> ((2024, 6, 1), hospital_a, 1, Some t_0830_1730) \<in> set scenario_records
   \<and> (1 :: int) \<in> {0, 1, 2, 3, 4, 6, 7, 8, 9}
   \<and> categorize_row row_a \<in> set (categorize_data [row_a])
   \<and> type (categorize_row row_a) \<in> {0, 1, 2, 3, 4, 7, 8, 9}"
proof -
  have h: "load_data no_other (scenario_grid scenario_cell_lines) 2024 6 = Inr scenario_records"
    by (rule scenario_load_data)
  have m: "((2024, 6, 1), hospital_a, 1, Some t_0830_1730) \<in> set scenario_records"
    by (simp add: scenario_records_def)
  have k: "categorize_row row_a \<in> set (categorize_data [row_a])"
    by (simp add: categorize_data_def)
  note t = output_types_defined [of "[row_a]" "[]" no_other
      "scenario_grid scenario_cell_lines" 2024 6 scenario_records]
  from t have "\<forall>r \<in> set (categorize_data [row_a]). type r \<in> {0, 1, 2, 3, 4, 7, 8, 9}"
    by (rule conjunct1)
  from bspec [OF this k] have a: "type (categorize_row row_a) \<in> {0, 1, 2, 3, 4, 7, 8, 9}" .
  from t have "load_data no_other (scenario_grid scenario_cell_lines) 2024 6 = Inr scenario_records
      \<longrightarrow> (\<forall>(dt, n, ty, t) \<in> set scenario_records. ty \<in> {0, 1, 2, 3, 4, 6, 7, 8, 9})"
    by (rule conjunct2 [OF conjunct2])
  from this h have "\<forall>(dt, n, ty, t) \<in> set scenario_records. ty \<in> {0, 1, 2, 3, 4, 6, 7, 8, 9}"
    by (rule mp)
  from bspec [OF this m] have c: "(1 :: int) \<in> {0, 1, 2, 3, 4, 6, 7, 8, 9}"
    by simp
  from h m c k a show ?thesis by (intro conjI)
qed

text \<open>
  C2. When the time of a row contains \<open>08:30\<close> as the padding of line 88 runs, the
  padding still rewrites it: the padded time contains \<open>008:30\<close> (the time
  \<open>08:30 U+FF5E 17:30\<close> becomes \<open>008:30 U+FF5E 17:30\<close>). The padded time is then none of the
  four strings that lines 90 to 105 compare with, and the row ends with the type it had
  before the padding; a row of type 8 keeps type 8.
\<close>

theorem padding_rewrites_padded_time:
  assumes "time (before_padding r) = Some t" and "str_contains s_0830 t"
  shows "time (categorize_row r) = Some (pad t)
         \<and> str_contains s_00830 (pad t)
         \<and> pad t \<notin> {t_0830_1730, t_1730_next_0830, t_0830_1715_2230_next_0830, t_1715_2230}
         \<and> type (categorize_row r) = type (before_padding r)
         \<and> (type (before_padding r) = 8 \<longrightarrow> type (categorize_row r) = 8)
         \<and> pad t_0830_1730 = t_00830_1730"
proof -
  have tm: "time (rule8 (before_padding r)) = Some (pad t)"
    using assms(1) by (simp add: time_rule8)
  have c: "str_contains s_00830 (pad t)"
    using assms(2) by (rule pad_contains_00830)
  have n1: "\<not> str_contains s_00830 t_0830_1730"
    and n2: "\<not> str_contains s_00830 t_1730_next_0830"
    and n3: "\<not> str_contains s_00830 t_0830_1715_2230_next_0830"
    and n4: "\<not> str_contains s_00830 t_1715_2230"
    by (simp_all add: s_00830_def lit)
  from c n1 n2 n3 n4 have ne: "pad t \<noteq> t_0830_1730" "pad t \<noteq> t_1730_next_0830"
    "pad t \<noteq> t_0830_1715_2230_next_0830" "pad t \<noteq> t_1715_2230"
    by auto
  have ty: "type (categorize_row r) = type (before_padding r)"
    unfolding categorize_row_def by (rule type_after_padding [OF tm ne])
  have ex: "pad t_0830_1730 = t_00830_1730"
    by (simp add: pad_def str_replace_def t_00830_1730_def lit)
  show ?thesis
    using tm c ne ty ex by (simp add: time_after_padding)
qed

theorem padding_rewrites_padded_time_witness:
  "time (before_padding (row_a\<lparr>time := Some t_0830_1730\<rparr>)) = Some t_0830_1730
   \<and> str_contains s_0830 t_0830_1730
   \<and> time (categorize_row (row_a\<lparr>time := Some t_0830_1730\<rparr>)) = Some t_00830_1730
   \<and> type (categorize_row (row_a\<lparr>time := Some t_0830_1730\<rparr>)) = 8"
proof -
  have h1: "time (before_padding (row_a\<lparr>time := Some t_0830_1730\<rparr>)) = Some t_0830_1730"
    by (simp add: before_padding_def rule1_def rule2_def rule3_def rule4_def rule5_def
        rule6_def rule7_def row_a_def hospital_a_def)
  have h2: "str_contains s_0830 t_0830_1730"
    by (simp add: lit)
  have h3: "type (before_padding (row_a\<lparr>time := Some t_0830_1730\<rparr>)) = 8"
    by (simp add: before_padding_def rule1_def rule2_def rule3_def rule4_def rule5_def
        rule6_def rule7_def row_a_def hospital_a_def lit)
  show ?thesis
    using h1 h2 h3 padding_rewrites_padded_time [OF h1 h2] by simp
qed

text \<open>
  C3, as the code has it. The padding scans for \<open>8:30\<close> from the left and continues after
  each replacement, so in a time that contains \<open>8:38:30\<close> it copies \<open>8:3\<close> and then writes
  \<open>08:30\<close>: the result \<open>8:308:30\<close> begins with an occurrence of \<open>8:30\<close> that no zero precedes.
\<close>

theorem unpadded_830_counterexample:
  "map time (add_missing_rows (categorize_data [row_a\<lparr>time := Some s_83830\<rparr>]))
     = [Some (s_830 @ s_830)]
   \<and> \<not> all_padded None (s_830 @ s_830)"
  by (simp add: add_missing_rows_def new_rows_def island_days_def filtered_days_def
      categorize_data_def categorize_row_def before_padding_def rule1_def rule2_def rule3_def
      rule4_def rule5_def rule6_def rule7_def rule8_def rule9_def rule10_def rule11_def
      rule12_def row_a_def hospital_a_def str_replace_def s_83830_def lit)

text \<open>
  C3, amended. Every record of the gap filler's output is the classification of an input
  row or a synthesized row. In the classification of a row whose time, as it enters the
  padding of line 88, does not contain \<open>8:38:30\<close>, each occurrence of \<open>8:30\<close> comes right
  after a \<open>0\<close>: wherever the time is cut as \<open>u\<close>, \<open>8:30\<close>, \<open>v\<close>, the part \<open>u\<close> is not empty
  and ends with \<open>0\<close>. The time of a synthesized row is one of the two strings of line 118,
  and \<open>8:30\<close> occurs in neither.
\<close>

theorem output_times_zero_padded:
  "set (add_missing_rows (categorize_data df))
     = categorize_row ` set df \<union> set (new_rows (categorize_data df))
   \<and> (no_83830 (before_padding r) \<and> time (categorize_row r) = Some (u @ s_830 @ v)
        \<longrightarrow> u \<noteq> [] \<and> last u = 48)
   \<and> (r' \<in> set (new_rows df')
        \<longrightarrow> (time r' = Some t_0900_1730 \<or> time r' = Some t_0900_1200_1400_1700))
   \<and> \<not> str_contains s_830 t_0900_1730 \<and> \<not> str_contains s_830 t_0900_1200_1400_1700"
proof -
  have d: "set (add_missing_rows (categorize_data df))
     = categorize_row ` set df \<union> set (new_rows (categorize_data df))"
    by (simp add: set_add_missing_rows categorize_data_def)
  have c: "u \<noteq> [] \<and> last u = 48"
    if a: "no_83830 (before_padding r) \<and> time (categorize_row r) = Some (u @ s_830 @ v)"
  proof -
    from a obtain t0 where t0: "time (before_padding r) = Some t0"
      and t: "u @ s_830 @ v = pad t0"
      by (auto simp: time_after_padding time_rule8)
    from a t0 have "\<not> str_contains s_83830 t0" by (simp add: no_83830_def)
    then have "all_padded None (pad t0)" by (rule pad_padded)
    from all_padded_occurrence [OF this t [symmetric]]
    show ?thesis by (simp split: if_splits)
  qed
  have n: "time r' = Some t_0900_1730 \<or> time r' = Some t_0900_1200_1400_1700"
    if "r' \<in> set (new_rows df')"
    using that by (rule new_rows_time)
  have f: "\<not> str_contains s_830 t_0900_1730" "\<not> str_contains s_830 t_0900_1200_1400_1700"
    by (simp_all add: lit)
  from d c n f show ?thesis by blast
qed

theorem output_times_zero_padded_witness:
  "no_83830 (before_padding row_a)
   \<and> time (categorize_row row_a) = Some ([48] @ s_830 @ [65374, 49, 55, 58, 51, 48])
   \<and> [48 :: nat] \<noteq> [] \<and> last [48 :: nat] = 48
   \<and> \<lparr>day = 7, week = sunday, variable = 1, name = city_medical,
       time = Some t_0900_1730, type = 6\<rparr>
       \<in> set (new_rows (categorize_data [city_medical_slot1, island_slot2_a]))
   \<and> categorize_row row_a
       \<in> set (add_missing_rows (categorize_data [row_83830, row_a]))
   \<and> \<not> no_83830 (before_padding row_83830)"
proof -
  have n: "no_83830 (before_padding row_a)"
    by (rule no_83830_before_padding) (simp add: no_83830_def row_a_def s_83830_def)
  have h: "time (categorize_row row_a) = Some ([48] @ s_830 @ [65374, 49, 55, 58, 51, 48])"
    by (simp add: categorize_row_def before_padding_def rule1_def rule2_def rule3_def
        rule4_def rule5_def rule6_def rule7_def rule8_def rule9_def rule10_def rule11_def
        rule12_def row_a_def hospital_a_def str_replace_def lit)
  have g: "\<lparr>day = 7, week = sunday, variable = 1, name = city_medical,
       time = Some t_0900_1730, type = 6\<rparr>
       \<in> set (new_rows (categorize_data [city_medical_slot1, island_slot2_a]))"
    by (simp add: categorize_data_def categorize_gap_rows new_rows_def island_days_def
        filtered_days_def new_rows_of_def)
  have b: "\<not> no_83830 (before_padding row_83830)"
    by (simp add: no_83830_def before_padding_def rule1_def rule2_def rule3_def rule4_def
        rule5_def rule6_def rule7_def row_83830_def row_a_def hospital_a_def
        s_83830_def lit)
  note t = output_times_zero_padded [of "[row_83830, row_a]" row_a "[48]"
      "[65374, 49, 55, 58, 51, 48]"
      "\<lparr>day = 7, week = sunday, variable = 1, name = city_medical,
        time = Some t_0900_1730, type = 6\<rparr>"
      "categorize_data [city_medical_slot1, island_slot2_a]"]
  from t have s: "set (add_missing_rows (categorize_data [row_83830, row_a]))
     = categorize_row ` set [row_83830, row_a]
       \<union> set (new_rows (categorize_data [row_83830, row_a]))"
    by (rule conjunct1)
  have m: "categorize_row row_a
       \<in> set (add_missing_rows (categorize_data [row_83830, row_a]))"
    unfolding s by simp
  from t n h have c: "[48 :: nat] \<noteq> [] \<and> last [48 :: nat] = 48"
    by (elim conjE) (rule mp, assumption, intro conjI)
  from n h c g m b show ?thesis by (intro conjI) simp_all
qed

text \<open>
  C4, as the code has it. The loop of line 117 runs once for every row with slot 2 and
  type 9 on a qualifying day, not once for the day: with two such rows on day 7 the gap
  filler adds four rows for that day, two of type 6 and two of type 7.
\<close>

theorem gap_filler_counterexample:
  "new_rows (categorize_data [city_medical_slot1, island_slot2_a, island_slot2_b])
     = new_rows_of 7 @ new_rows_of 7
   \<and> length (new_rows (categorize_data [city_medical_slot1, island_slot2_a, island_slot2_b])) = 4"
  by (simp add: categorize_data_def categorize_gap_rows new_rows_def island_days_def
      filtered_days_def new_rows_of_def)

text \<open>
  C4, amended. The output of the gap filler is the input and the new rows together,
  sorted by (day, variable, type). The new rows of a day \<open>d\<close> are the pair of line 118
  (type 6 with \<open>09:00 U+FF5E 17:30\<close>, type 7 with \<open>09:00 U+FF5E 12:00 / 14:00 U+FF5E 17:00\<close>, both
  with slot 1, the Sunday symbol and the hospital's name), once for every row of day \<open>d\<close>
  with slot 2 and type 9 when the day qualifies, and none otherwise: exactly two rows
  when there is one such row, none when there is none.
\<close>

theorem gap_filler_rows:
  "mset (add_missing_rows df) = mset df + mset (new_rows df)
   \<and> sorted (map (\<lambda>r. (day r, variable r, type r)) (add_missing_rows df))
   \<and> filter (\<lambda>r. day r = d) (new_rows df)
       = concat (replicate (if gap_day df d then island_slots df d else 0)
           [\<lparr>day = d, week = sunday, variable = 1, name = city_medical,
             time = Some t_0900_1730, type = 6\<rparr>,
            \<lparr>day = d, week = sunday, variable = 1, name = city_medical,
             time = Some t_0900_1200_1400_1700, type = 7\<rparr>])
   \<and> (gap_day df d \<and> island_slots df d = 1 \<longrightarrow>
        filter (\<lambda>r. day r = d) (new_rows df)
          = [\<lparr>day = d, week = sunday, variable = 1, name = city_medical,
              time = Some t_0900_1730, type = 6\<rparr>,
             \<lparr>day = d, week = sunday, variable = 1, name = city_medical,
              time = Some t_0900_1200_1400_1700, type = 7\<rparr>])
   \<and> (island_slots df d = 0 \<longrightarrow> filter (\<lambda>r. day r = d) (new_rows df) = [])"
proof -
  have m: "mset (add_missing_rows df) = mset df + mset (new_rows df)"
    by (simp add: add_missing_rows_def)
  have "sorted (map sort_key3 (add_missing_rows df))"
    unfolding add_missing_rows_def by (rule sorted_sort_key)
  then have s: "sorted (map (\<lambda>r. (day r, variable r, type r)) (add_missing_rows df))"
    by (simp add: sort_key3_def [abs_def])
  have f: "filter (\<lambda>r. day r = d) (new_rows df)
      = concat (replicate (if gap_day df d then island_slots df d else 0) (new_rows_of d))"
    by (simp only: new_rows_def filter_day_new_rows count_island_days)
  from m s f show ?thesis by (simp add: new_rows_of_def)
qed

theorem gap_filler_rows_witness:
  "gap_day (categorize_data [city_medical_slot1, island_slot2_a]) 7
   \<and> island_slots (categorize_data [city_medical_slot1, island_slot2_a]) 7 = 1
   \<and> filter (\<lambda>r. day r = 7) (new_rows (categorize_data [city_medical_slot1, island_slot2_a]))
       = [\<lparr>day = 7, week = sunday, variable = 1, name = city_medical,
           time = Some t_0900_1730, type = 6\<rparr>,
          \<lparr>day = 7, week = sunday, variable = 1, name = city_medical,
           time = Some t_0900_1200_1400_1700, type = 7\<rparr>]
   \<and> island_slots (categorize_data [city_medical_slot1]) 7 = 0
   \<and> filter (\<lambda>r. day r = 7) (new_rows (categorize_data [city_medical_slot1])) = []"
proof -
  have g: "gap_day (categorize_data [city_medical_slot1, island_slot2_a]) 7"
    by (simp add: categorize_data_def categorize_gap_rows gap_day_def)
  have i: "island_slots (categorize_data [city_medical_slot1, island_slot2_a]) 7 = 1"
    by (simp add: categorize_data_def categorize_gap_rows island_slots_def)
  have z: "island_slots (categorize_data [city_medical_slot1]) 7 = 0"
    by (simp add: categorize_data_def categorize_gap_rows island_slots_def)
  note t1 = gap_filler_rows [of "categorize_data [city_medical_slot1, island_slot2_a]" 7]
  note t0 = gap_filler_rows [of "categorize_data [city_medical_slot1]" 7]
  from t1 g i have a: "filter (\<lambda>r. day r = 7)
        (new_rows (categorize_data [city_medical_slot1, island_slot2_a]))
       = [\<lparr>day = 7, week = sunday, variable = 1, name = city_medical,
           time = Some t_0900_1730, type = 6\<rparr>,
          \<lparr>day = 7, week = sunday, variable = 1, name = city_medical,
           time = Some t_0900_1200_1400_1700, type = 7\<rparr>]"
    by (elim conjE) (rule mp, assumption, intro conjI)
  from t0 z have b: "filter (\<lambda>r. day r = 7) (new_rows (categorize_data [city_medical_slot1])) = []"
    by (elim conjE) (rule mp)
  from g i a z b show ?thesis by (intro conjI)
qed




text \<open>
  C7, as the code has it. Line 158 adds \<open>day - 1\<close> days to the first of the month and
  checks nothing: for June 2024, which has 30 days, a cell for day 31 gives a record dated
  2024-07-01, and the pipeline returns it.
\<close>

theorem date_overflow_counterexample:
  "days_in_month 2024 6 = 30
   \<and> load_data no_other (scenario_grid overflow_cell) 2024 6
       = Inr [((2024, 7, 1), hospital_a, 1, Some t_0830_1730)]"
  by (simp only: june_2024 load_data_def overflow_process_table overflow_split_text
      overflow_melt_and_split overflow_rows sum.case)
     (simp add: resolve_dates_def resolve_date_overflow)

text \<open>
  C7, amended. Whenever the pipeline returns records, each is dated the first day of the
  resolved month plus \<open>day - 1\<close> days, and for a day beyond the end of the month that date
  lies after the month: the record is emitted with a date outside the month. For a
  resolved month from 1677-10 to 2262-02 and rows whose days lie between 1 and 28 days
  past the end of that month the pipeline does return the records, a day beyond the end
  dated day \<open>day - days_in_month\<close> of the following month.
\<close>

theorem date_overflow_rolls_over:
  assumes "process_table table = Inr df1" and "split_text other df1 = Inr df2"
    and "melt_and_split df2 = Inr df3"
  shows "(load_data other table y m = Inr out \<longrightarrow>
            out = map (\<lambda>r. (plus_days (y, m, 1) (day r - 1), name r, type r, time r))
                    (add_missing_rows (categorize_data (filter_data df3))))
         \<and> (\<forall>d. days_in_month y m < d \<longrightarrow>
               (y, m, days_in_month y m) < plus_days (y, m, 1) (d - 1))
         \<and> (1 \<le> m \<and> m \<le> 12 \<and> (1677, 10) \<le> (y, m) \<and> (y, m) \<le> (2262, 2)
              \<and> (\<forall>r \<in> set df3. 1 \<le> day r \<and> day r \<le> days_in_month y m + 28) \<longrightarrow>
            load_data other table y m =
              Inr (map (\<lambda>r. (rolled_date y m (day r), name r, type r, time r))
                     (add_missing_rows (categorize_data (filter_data df3)))))
         \<and> (\<forall>d. days_in_month y m < d \<longrightarrow>
               rolled_date y m d =
                 (if m < 12 then (y, m + 1, d - days_in_month y m)
                  else (y + 1, 1, d - days_in_month y m)))"
proof (intro conjI impI allI)
  assume "load_data other table y m = Inr out"
  with assms have "resolve_dates y m (add_missing_rows (categorize_data (filter_data df3)))
      = Inr out"
    by (simp add: load_data_def split: if_splits)
  then show "out = map (\<lambda>r. (plus_days (y, m, 1) (day r - 1), name r, type r, time r))
                    (add_missing_rows (categorize_data (filter_data df3)))"
    by (rule resolve_dates_sum)
next
  fix d assume "days_in_month y m < d"
  then show "(y, m, days_in_month y m) < plus_days (y, m, 1) (d - 1)"
    by (rule plus_days_after_month)
next
  assume a: "1 \<le> m \<and> m \<le> 12 \<and> (1677, 10) \<le> (y, m) \<and> (y, m) \<le> (2262, 2)
      \<and> (\<forall>r \<in> set df3. 1 \<le> day r \<and> day r \<le> days_in_month y m + 28)"
  have "\<forall>r \<in> set (add_missing_rows (categorize_data (filter_data df3))).
          1 \<le> day r \<and> day r \<le> days_in_month y m + 28"
  proof
    fix r assume "r \<in> set (add_missing_rows (categorize_data (filter_data df3)))"
    from day_final_rows [OF this] obtain r0 where "r0 \<in> set df3" and "day r = day r0"
      by auto
    with a show "1 \<le> day r \<and> day r \<le> days_in_month y m + 28" by simp
  qed
  with a have "resolve_dates y m (add_missing_rows (categorize_data (filter_data df3)))
      = Inr (map (\<lambda>r. (rolled_date y m (day r), name r, type r, time r))
               (add_missing_rows (categorize_data (filter_data df3))))"
    by (intro resolve_dates_rolled) simp_all
  moreover from a have "(1677, 9, 22) \<le> (y, m, 1 :: int) \<and> (y, m, 1 :: int) \<le> (2262, 4, 11)"
    by auto
  ultimately show "load_data other table y m =
      Inr (map (\<lambda>r. (rolled_date y m (day r), name r, type r, time r))
             (add_missing_rows (categorize_data (filter_data df3))))"
    using assms a by (simp add: load_data_def)
next
  fix d assume "days_in_month y m < d"
  then show "rolled_date y m d =
      (if m < 12 then (y, m + 1, d - days_in_month y m)
       else (y + 1, 1, d - days_in_month y m))"
    by (simp add: rolled_date_def)
qed

theorem date_overflow_rolls_over_witness:
  "process_table (scenario_grid overflow_cell) = Inr [(0, [], [49]), (0, [26376], overflow_cell)]
   \<and> melt_and_split
       (1, [\<lparr>day = 1, week = [], slots = []\<rparr>,
            \<lparr>day = 31, week = [26376],
             slots = [[65, 30149, 38498, 40, 56, 58, 51, 48, 65374, 49, 55, 58, 51, 48,
                       41]]\<rparr>])
       = Inr [row_a\<lparr>day := 31\<rparr>]
   \<and> (1 :: int) \<le> 6 \<and> (6 :: int) \<le> 12
   \<and> (1677 :: int, 10 :: int) \<le> (2024, 6) \<and> (2024 :: int, 6 :: int) \<le> (2262, 2)
   \<and> 1 \<le> day (row_a\<lparr>day := 31\<rparr>)
   \<and> day (row_a\<lparr>day := 31\<rparr>) \<le> days_in_month 2024 6 + 28
   \<and> days_in_month 2024 6 < 31
   \<and> load_data no_other (scenario_grid overflow_cell) 2024 6
       = Inr (map (\<lambda>r. (rolled_date 2024 6 (day r), name r, type r, time r))
                (add_missing_rows (categorize_data (filter_data [row_a\<lparr>day := 31\<rparr>]))))
   \<and> load_data no_other (scenario_grid overflow_cell) 2024 6
       = Inr (map (\<lambda>r. (plus_days (2024, 6, 1) (day r - 1), name r, type r, time r))
                (add_missing_rows (categorize_data (filter_data [row_a\<lparr>day := 31\<rparr>]))))
   \<and> (2024, 6, days_in_month 2024 6) < plus_days (2024, 6, 1) (31 - 1)
   \<and> rolled_date 2024 6 31 = (2024, 7, 1)"
proof -
  let ?rows = "add_missing_rows (categorize_data (filter_data [row_a\<lparr>day := 31\<rparr>]))"
  have b: "(1 :: int) \<le> 6" "(6 :: int) \<le> 12"
    "(1677 :: int, 10 :: int) \<le> (2024, 6)" "(2024 :: int, 6 :: int) \<le> (2262, 2)"
    by simp_all
  have d: "1 \<le> day (row_a\<lparr>day := 31\<rparr>)"
    "day (row_a\<lparr>day := 31\<rparr>) \<le> days_in_month 2024 6 + 28" "days_in_month 2024 6 < 31"
    by (simp_all add: june_2024)
  then have h: "\<forall>r \<in> set [row_a\<lparr>day := 31\<rparr>]. 1 \<le> day r \<and> day r \<le> days_in_month 2024 6 + 28"
    by simp
  note t = date_overflow_rolls_over [where other = no_other and y = 2024 and m = 6
      and out = "map (\<lambda>r. (rolled_date 2024 6 (day r), name r, type r, time r)) ?rows",
      OF overflow_process_table overflow_split_text overflow_melt_and_split]
  from t b h have l: "load_data no_other (scenario_grid overflow_cell) 2024 6
       = Inr (map (\<lambda>r. (rolled_date 2024 6 (day r), name r, type r, time r)) ?rows)"
    by (elim conjE) (rule mp, assumption, intro conjI)
  from t l have e: "map (\<lambda>r. (rolled_date 2024 6 (day r), name r, type r, time r)) ?rows
       = map (\<lambda>r. (plus_days (2024, 6, 1) (day r - 1), name r, type r, time r)) ?rows"
    by (elim conjE) (rule mp)
  from l e have p: "load_data no_other (scenario_grid overflow_cell) 2024 6
       = Inr (map (\<lambda>r. (plus_days (2024, 6, 1) (day r - 1), name r, type r, time r)) ?rows)"
    by simp
  from t d(3) have a: "(2024, 6, days_in_month 2024 6) < plus_days (2024, 6, 1) (31 - 1)"
    by (elim conjE) (erule allE, rule mp)
  from t d(3) have r: "rolled_date 2024 6 31 = (2024, 7, 1)"
    by (simp add: june_2024)
  from overflow_process_table overflow_melt_and_split b d l p a r show ?thesis
    by (intro conjI)
qed

text \<open>
  C1, as the code has it. Line 24 deletes every space of a cell before line 33 splits the
  text at white space, so the scenario's cell becomes one token that is not a number: its
  row is dropped, no slot column is left, and \<open>melt_and_split\<close> raises. With line breaks
  between the tokens the two rows come through, but the padding of line 88 turns each
  \<open>08:30\<close> into \<open>008:30\<close> and both keep type 8.
\<close>

theorem scenario_counterexample:
  "process_table (scenario_grid scenario_cell)
     = Inr [(0, [], [49]), (0, [26376], scenario_cell_joined)]
   \<and> load_data no_other (scenario_grid scenario_cell) 2024 6 = Inl AttributeError
   \<and> load_data no_other (scenario_grid scenario_cell_padded) 2024 6
       = Inr [((2024, 6, 1), hospital_a, 8, Some t_00830_1730),
              ((2024, 6, 1), hospital_b, 8, Some t_1730_next_00830)]"
  by (simp add: load_data_def joined_process_table joined_split_text joined_melt_and_split
      padded_process_table padded_split_text padded_melt_and_split padded_rows
      resolve_dates_def resolve_date_first)

text \<open>
  C1, amended. On the scenario's grid with the tokens of the cell separated by line breaks
  and the hours written \<open>8:30\<close>, the pipeline for June 2024 returns exactly the two records
  of the scenario: (2024-06-01, \<open>hospital_a\<close>, 1, \<open>08:30 U+FF5E 17:30\<close>) and
  (2024-06-01, \<open>hospital_b\<close>, 2, \<open>17:30 U+FF5E U+7FCC 08:30\<close>).
\<close>

theorem scenario_with_line_breaks:
  "load_data other (scenario_grid scenario_cell_lines) 2024 6
     = Inr [((2024, 6, 1), hospital_a, 1, Some t_0830_1730),
            ((2024, 6, 1), hospital_b, 2, Some t_1730_next_0830)]"
  using scenario_load_data [of other] by (simp add: scenario_records_def)

end
